theory Spec2Isabelle
  imports Complex_Main
begin

section \<open>Data model\<close>

text \<open>
  The durable store follows the Prisma schema: \<open>Room\<close> and \<open>RoomMember\<close> rows with
  textual \<open>status\<close> and \<open>role\<close> columns, kept in insertion order. A \<open>DateTime\<close> is the
  number of milliseconds since the epoch. Identifiers produced by \<open>uuidv4()\<close> and the
  readings of the clock are inputs of the operations.
\<close>

record user =
  user_ident :: string
  user_name :: string

record room =
  room_ident :: string
  room_code :: string
  room_name :: string
  destination_name :: string
  destination_lat :: real
  destination_lng :: real
  created_by :: string
  max_members :: int
  room_status :: string
  created_at :: int
  updated_at :: int
  expires_at :: "int option"
  completed_at :: "int option"

record room_member =
  member_ident :: string
  room_id :: string
  user_id :: string
  nickname :: string
  role :: string
  status :: string
  joined_at :: int
  left_at :: "int option"
  last_seen :: "int option"
  join_order :: int

record database =
  users :: "user list"
  rooms :: "room list"
  room_members :: "room_member list"

text \<open>Errors thrown by the services and by the durable store's constraints.\<close>

datatype error =
    CodeGenerationFailed      \<comment> \<open>Failed to generate unique room code after maximum attempts\<close>
  | RoomNotFoundOrInactive    \<comment> \<open>Room not found or inactive\<close>
  | RoomBeingModified         \<comment> \<open>Room is currently being modified. Please try again.\<close>
  | RoomNotFound              \<comment> \<open>Room not found\<close>
  | RoomNotActive             \<comment> \<open>Room is not active\<close>
  | RoomExpired               \<comment> \<open>Room has expired\<close>
  | RoomFull                  \<comment> \<open>Room is full\<close>
  | AlreadyMember             \<comment> \<open>You are already a member of this room\<close>
  | NotMember                 \<comment> \<open>You are not a member of this room\<close>
  | NotActiveMember           \<comment> \<open>You are not an active member of this room\<close>
  | AccessDenied              \<comment> \<open>Access denied\<close>
  | UniqueConstraintFailed    \<comment> \<open>primary key or unique index violated on insert\<close>
  | ForeignKeyConstraintFailed \<comment> \<open>referenced row missing on insert\<close>
  | RecordNotFound            \<comment> \<open>update of a row that does not exist\<close>
  | InvalidExpireTime         \<comment> \<open>the key-value store refuses \<open>SETEX\<close> with a lifetime that is not positive\<close>

subsection \<open>The key-value store\<close>

text \<open>
  Every key of the key-value store is built from one of a few templates; each template
  is one field below, indexed by the identifiers that fill it, and holds values of one
  shape. A JSON document is stored as the value it serialises. An entry carries the
  instant (in milliseconds) at which it expires, if it has one.
\<close>

type_synonym 'v entry = "'v \<times> int option"

record member_view =
  view_member :: room_member
  view_user :: "user option"

record room_view =
  view_room :: room
  view_members :: "member_view list option"
  view_creator :: "user option"
  memberCount :: "int option"

record chat_message =
  message_ident :: string
  message_roomId :: string
  message_userId :: string
  message_userName :: string
  content :: string
  timestamp :: int

record redis =
  room_code_keys :: "string \<rightharpoonup> string entry"          \<comment> \<open>\<open>room_code:<code>\<close>\<close>
  join_lock_keys :: "string \<rightharpoonup> string entry"          \<comment> \<open>\<open>lock:room:<roomId>:join\<close>\<close>
  room_keys :: "string \<rightharpoonup> room_view entry"            \<comment> \<open>\<open>room:<roomId>\<close>\<close>
  room_members_keys :: "string \<rightharpoonup> string set entry"   \<comment> \<open>\<open>room:<roomId>:members\<close>\<close>
  location_keys :: "string \<times> string \<rightharpoonup> string entry"  \<comment> \<open>\<open>location:<roomId>:<userId>\<close>\<close>
  chat_keys :: "string \<rightharpoonup> chat_message list entry"    \<comment> \<open>\<open>chat:room:<roomId>:messages\<close>\<close>

record system =
  db :: database
  kv :: redis

definition live :: "int \<Rightarrow> 'v entry \<Rightarrow> bool" where
  "live now e = (case snd e of None \<Rightarrow> True | Some t \<Rightarrow> now < t)"

definition kv_get :: "int \<Rightarrow> ('k \<rightharpoonup> 'v entry) \<Rightarrow> 'k \<Rightarrow> 'v option" where
  "kv_get now m k =
     (case m k of None \<Rightarrow> None | Some e \<Rightarrow> if live now e then Some (fst e) else None)"

definition kv_setEx :: "int \<Rightarrow> ('k \<rightharpoonup> 'v entry) \<Rightarrow> 'k \<Rightarrow> int \<Rightarrow> 'v \<Rightarrow> ('k \<rightharpoonup> 'v entry)" where
  "kv_setEx now m k seconds v = m(k \<mapsto> (v, Some (now + seconds * 1000)))"

text \<open>\<open>SETEX key seconds value\<close> as the client sees it: the store answers a lifetime that
  is not positive with an error, which the client throws, and stores the value
  otherwise. The callers that pass the constant lifetimes 300 and 3600 cannot meet the
  error and use \<open>kv_setEx\<close> directly.\<close>

definition redis_setEx ::
  "int \<Rightarrow> ('k \<rightharpoonup> 'v entry) \<Rightarrow> 'k \<Rightarrow> int \<Rightarrow> 'v \<Rightarrow> error + ('k \<rightharpoonup> 'v entry)" where
  "redis_setEx now m k seconds v =
     (if seconds \<le> 0 then Inl InvalidExpireTime else Inr (kv_setEx now m k seconds v))"

definition kv_del :: "('k \<rightharpoonup> 'v entry) \<Rightarrow> 'k \<Rightarrow> ('k \<rightharpoonup> 'v entry)" where
  "kv_del m k = m(k := None)"

definition kv_expire :: "int \<Rightarrow> ('k \<rightharpoonup> 'v entry) \<Rightarrow> 'k \<Rightarrow> int \<Rightarrow> ('k \<rightharpoonup> 'v entry)" where
  "kv_expire now m k seconds =
     (case kv_get now m k of None \<Rightarrow> m | Some v \<Rightarrow> m(k \<mapsto> (v, Some (now + seconds * 1000))))"

text \<open>\<open>SET key value PX ms NX\<close>: stores only when the key holds no live value.\<close>

definition kv_set_px_nx ::
  "int \<Rightarrow> ('k \<rightharpoonup> 'v entry) \<Rightarrow> 'k \<Rightarrow> 'v \<Rightarrow> int \<Rightarrow> bool \<times> ('k \<rightharpoonup> 'v entry)" where
  "kv_set_px_nx now m k v ms =
     (case kv_get now m k of
        Some _ \<Rightarrow> (False, m)
      | None \<Rightarrow> (True, m(k \<mapsto> (v, Some (now + ms)))))"

text \<open>Set commands: an absent or expired key is the empty set; an emptied set is removed.\<close>

definition kv_sIsMember :: "int \<Rightarrow> ('k \<rightharpoonup> string set entry) \<Rightarrow> 'k \<Rightarrow> string \<Rightarrow> bool" where
  "kv_sIsMember now m k x = (case kv_get now m k of None \<Rightarrow> False | Some s \<Rightarrow> x \<in> s)"

definition kv_sAdd ::
  "int \<Rightarrow> ('k \<rightharpoonup> string set entry) \<Rightarrow> 'k \<Rightarrow> string list \<Rightarrow> ('k \<rightharpoonup> string set entry)" where
  "kv_sAdd now m k xs =
     (case m k of
        None \<Rightarrow> m(k \<mapsto> (set xs, None))
      | Some e \<Rightarrow> if live now e then m(k \<mapsto> (fst e \<union> set xs, snd e)) else m(k \<mapsto> (set xs, None)))"

definition kv_sRem ::
  "int \<Rightarrow> ('k \<rightharpoonup> string set entry) \<Rightarrow> 'k \<Rightarrow> string \<Rightarrow> ('k \<rightharpoonup> string set entry)" where
  "kv_sRem now m k x =
     (case m k of
        None \<Rightarrow> m
      | Some e \<Rightarrow>
          if live now e
          then (if fst e - {x} = {} then m(k := None) else m(k \<mapsto> (fst e - {x}, snd e)))
          else m(k := None))"

text \<open>List commands: \<open>LPUSH\<close> puts the value at the head; \<open>LRANGE key 0 -1\<close> reads the
  whole list from the head.\<close>

definition kv_lPush ::
  "int \<Rightarrow> ('k \<rightharpoonup> 'a list entry) \<Rightarrow> 'k \<Rightarrow> 'a \<Rightarrow> ('k \<rightharpoonup> 'a list entry)" where
  "kv_lPush now m k x =
     (case m k of
        None \<Rightarrow> m(k \<mapsto> ([x], None))
      | Some e \<Rightarrow> if live now e then m(k \<mapsto> (x # fst e, snd e)) else m(k \<mapsto> ([x], None)))"

definition kv_lRange_all :: "int \<Rightarrow> ('k \<rightharpoonup> 'a list entry) \<Rightarrow> 'k \<Rightarrow> 'a list" where
  "kv_lRange_all now m k = (case kv_get now m k of None \<Rightarrow> [] | Some xs \<Rightarrow> xs)"

subsection \<open>The durable store\<close>

definition find_user :: "database \<Rightarrow> string \<Rightarrow> user option" where
  "find_user d uid = find (\<lambda>u. user_ident u = uid) (users d)"

definition find_room :: "database \<Rightarrow> string \<Rightarrow> room option" where
  "find_room d rid = find (\<lambda>r. room_ident r = rid) (rooms d)"

definition find_room_by_code :: "database \<Rightarrow> string \<Rightarrow> room option" where
  "find_room_by_code d code = find (\<lambda>r. room_code r = code) (rooms d)"

definition find_member :: "database \<Rightarrow> string \<Rightarrow> string \<Rightarrow> room_member option" where
  "find_member d rid uid = find (\<lambda>m. room_id m = rid \<and> user_id m = uid) (room_members d)"

definition active_members :: "database \<Rightarrow> string \<Rightarrow> room_member list" where
  "active_members d rid =
     filter (\<lambda>m. room_id m = rid \<and> status m = ''active'') (room_members d)"

text \<open>\<open>room.create\<close>: the primary key and the room code are unique, the creator exists.\<close>

definition create_room_row :: "database \<Rightarrow> room \<Rightarrow> error + database" where
  "create_room_row d r =
     (if find_room d (room_ident r) \<noteq> None \<or> find_room_by_code d (room_code r) \<noteq> None
      then Inl UniqueConstraintFailed
      else if find_user d (created_by r) = None then Inl ForeignKeyConstraintFailed
      else Inr (d\<lparr>rooms := rooms d @ [r]\<rparr>))"

text \<open>\<open>roomMember.create\<close>: the primary key and the pair (room, user) are unique, the
  room and the user exist.\<close>

definition create_member_row :: "database \<Rightarrow> room_member \<Rightarrow> error + database" where
  "create_member_row d m =
     (if find (\<lambda>x. member_ident x = member_ident m) (room_members d) \<noteq> None
         \<or> find_member d (room_id m) (user_id m) \<noteq> None
      then Inl UniqueConstraintFailed
      else if find_room d (room_id m) = None \<or> find_user d (user_id m) = None
      then Inl ForeignKeyConstraintFailed
      else Inr (d\<lparr>room_members := room_members d @ [m]\<rparr>))"

definition update_member_row ::
  "database \<Rightarrow> string \<Rightarrow> (room_member \<Rightarrow> room_member) \<Rightarrow> database" where
  "update_member_row d mid f =
     d\<lparr>room_members := map (\<lambda>m. if member_ident m = mid then f m else m) (room_members d)\<rparr>"

definition update_room_row :: "database \<Rightarrow> string \<Rightarrow> (room \<Rightarrow> room) \<Rightarrow> error + database" where
  "update_room_row d rid f =
     (if find_room d rid = None then Inl RecordNotFound
      else Inr (d\<lparr>rooms := map (\<lambda>r. if room_ident r = rid then f r else r) (rooms d)\<rparr>))"

text \<open>\<open>roomMember.update\<close> with a \<open>where\<close> clause: the rows that satisfy it are rewritten.\<close>

definition update_member_where ::
  "database \<Rightarrow> (room_member \<Rightarrow> bool) \<Rightarrow> (room_member \<Rightarrow> room_member) \<Rightarrow> database" where
  "update_member_where d P f =
     d\<lparr>room_members := map (\<lambda>m. if P m then f m else m) (room_members d)\<rparr>"

text \<open>\<open>findFirst\<close> with \<open>orderBy: { join_order: 'asc' }\<close>: the rows are sorted by join
  order, rows of equal join order staying in insertion order, and the first is taken.\<close>

definition first_by_join_order :: "room_member list \<Rightarrow> room_member option" where
  "first_by_join_order ms = (case sort_key join_order ms of [] \<Rightarrow> None | m # _ \<Rightarrow> Some m)"

text \<open>JavaScript's \<open>a || b\<close> on an optional string: \<open>undefined\<close> and the empty string
  are falsy.\<close>

definition truthy :: "string option \<Rightarrow> bool" where
  "truthy x = (case x of None \<Rightarrow> False | Some v \<Rightarrow> v \<noteq> [])"

definition or_else :: "string option \<Rightarrow> string \<Rightarrow> string" where
  "or_else x d = (case x of None \<Rightarrow> d | Some v \<Rightarrow> if v = [] then d else v)"

section \<open>utils/roomCode.ts\<close>

text \<open>
  \<open>generateRoomCode\<close>: at most ten attempts; attempt \<open>i\<close> draws the candidate
  \<open>rand i\<close> (the outcome of \<open>generateRandomCode\<close>), and the first candidate that is
  neither a room code of the durable store nor a key of the reservation cache is
  reserved for 300 seconds and returned.
\<close>

fun generateRoomCode_loop ::
  "nat \<Rightarrow> nat \<Rightarrow> (nat \<Rightarrow> string) \<Rightarrow> int \<Rightarrow> system \<Rightarrow> (error + string) \<times> system" where
  "generateRoomCode_loop 0 attempts rand now s = (Inl CodeGenerationFailed, s)"
| "generateRoomCode_loop (Suc remaining) attempts rand now s =
     (let code = rand attempts in
      if find_room_by_code (db s) code = None
         \<and> \<not> truthy (kv_get now (room_code_keys (kv s)) code)
      then (Inr code,
            s\<lparr>kv := (kv s)\<lparr>room_code_keys :=
                 kv_setEx now (room_code_keys (kv s)) code 300 ''reserved''\<rparr>\<rparr>)
      else generateRoomCode_loop remaining (Suc attempts) rand now s)"

definition generateRoomCode :: "(nat \<Rightarrow> string) \<Rightarrow> int \<Rightarrow> system \<Rightarrow> (error + string) \<times> system" where
  "generateRoomCode rand now s = generateRoomCode_loop 10 0 rand now s"

definition releaseRoomCode :: "string \<Rightarrow> system \<Rightarrow> system" where
  "releaseRoomCode code s =
     s\<lparr>kv := (kv s)\<lparr>room_code_keys := kv_del (room_code_keys (kv s)) code\<rparr>\<rparr>"

section \<open>services/roomService.ts\<close>

record CreateRoomData =
  name :: string
  destinationName :: string
  destinationLat :: real
  destinationLng :: real
  maxMembers :: int
  expiresIn :: int
  createdBy :: string

record JoinRoomData =
  roomCode :: string
  userId :: string
  joinNickname :: "string option"

record join_result =
  joined_room :: room
  joined_room_members :: "string list"    \<comment> \<open>ids of the members that were active\<close>
  joined_room_creator :: "string option"  \<comment> \<open>the creator's name\<close>
  roomMember :: room_member
  isRejoining :: bool

subsection \<open>The cache helpers\<close>

text \<open>\<open>cacheRoomData\<close>: \<open>memberCount\<close> is
  \<open>roomData.members?.length || roomData.memberCount || 0\<close>; the member ids are the
  \<open>user_id\<close> columns of the rows.\<close>

definition cached_member_count :: "room_view \<Rightarrow> int" where
  "cached_member_count v =
     (let n = (case view_members v of None \<Rightarrow> 0 | Some ms \<Rightarrow> int (length ms)) in
      if n \<noteq> 0 then n
      else (case memberCount v of None \<Rightarrow> 0 | Some c \<Rightarrow> c))"

definition cacheRoomData :: "string \<Rightarrow> room_view \<Rightarrow> int \<Rightarrow> system \<Rightarrow> system" where
  "cacheRoomData roomId roomData now s =
     (let cacheData = roomData\<lparr>memberCount := Some (cached_member_count roomData)\<rparr>;
          k1 = (kv s)\<lparr>room_keys := kv_setEx now (room_keys (kv s)) roomId 3600 cacheData\<rparr>
      in case view_members roomData of
           None \<Rightarrow> s\<lparr>kv := k1\<rparr>
         | Some ms \<Rightarrow>
             (let memberIds = map (\<lambda>m. user_id (view_member m)) ms in
              if memberIds \<noteq> []
              then s\<lparr>kv := k1\<lparr>room_members_keys :=
                     kv_expire now (kv_sAdd now (room_members_keys k1) roomId memberIds)
                       roomId 3600\<rparr>\<rparr>
              else s\<lparr>kv := k1\<rparr>))"

text \<open>\<open>updateRoomMemberCount\<close>: \<open>Math.max(0, (room.memberCount || 0) + delta)\<close>, written
  back with a fresh 3600 second lifetime; nothing happens without a cached entry.\<close>

definition updateRoomMemberCount :: "string \<Rightarrow> int \<Rightarrow> int \<Rightarrow> system \<Rightarrow> system" where
  "updateRoomMemberCount roomId delta now s =
     (case kv_get now (room_keys (kv s)) roomId of
        None \<Rightarrow> s
      | Some cached \<Rightarrow>
          s\<lparr>kv := (kv s)\<lparr>room_keys :=
               kv_setEx now (room_keys (kv s)) roomId 3600
                 (cached\<lparr>memberCount :=
                    Some (max 0 ((case memberCount cached of None \<Rightarrow> 0 | Some c \<Rightarrow> c) + delta))\<rparr>)\<rparr>\<rparr>)"

subsection \<open>createRoom\<close>

text \<open>The transaction of \<open>createRoom\<close>: the room row, then the creator's member row
  with role owner and join order 1. A failed insert rolls the transaction back.\<close>

definition createRoom_tx ::
  "database \<Rightarrow> CreateRoomData \<Rightarrow> string \<Rightarrow> int \<Rightarrow> string \<Rightarrow> string
     \<Rightarrow> error + ((room \<times> room_member) \<times> database)" where
  "createRoom_tx d data code now room_uuid member_uuid =
     (let r = \<lparr>room_ident = room_uuid, room_code = code, room_name = name data,
               destination_name = destinationName data,
               destination_lat = destinationLat data, destination_lng = destinationLng data,
               created_by = createdBy data, max_members = maxMembers data,
               room_status = ''active'', created_at = now, updated_at = now,
               expires_at = Some (now + expiresIn data * 60 * 60 * 1000),
               completed_at = None\<rparr>
      in case create_room_row d r of
           Inl e \<Rightarrow> Inl e
         | Inr d1 \<Rightarrow>
             (let m = \<lparr>member_ident = member_uuid, room_id = room_ident r,
                       user_id = createdBy data, nickname = name data, role = ''owner'',
                       status = ''active'', joined_at = now, left_at = None,
                       last_seen = Some now, join_order = 1\<rparr>
              in case create_member_row d1 m of
                   Inl e \<Rightarrow> Inl e
                 | Inr d2 \<Rightarrow> Inr ((r, m), d2)))"

text \<open>\<open>createRoom\<close>: the code is allocated first; the \<open>try\<close> block runs the transaction,
  caches the room with \<open>memberCount: 1\<close> and stores the code mapping for the room's
  lifetime; the \<open>catch\<close> block releases the code and rethrows. Two statements of the
  \<open>try\<close> block can throw: the transaction, which is then rolled back, and the \<open>setEx\<close> of
  the code mapping, which comes after the transaction has committed and the room has
  been cached.\<close>

definition createRoom ::
  "CreateRoomData \<Rightarrow> (nat \<Rightarrow> string) \<Rightarrow> int \<Rightarrow> string \<Rightarrow> string \<Rightarrow> system
     \<Rightarrow> (error + room) \<times> system" where
  "createRoom data rand now room_uuid member_uuid s =
     (case generateRoomCode rand now s of
        (Inl e, s1) \<Rightarrow> (Inl e, s1)
      | (Inr code, s1) \<Rightarrow>
          (case createRoom_tx (db s1) data code now room_uuid member_uuid of
             Inl e \<Rightarrow> (Inl e, releaseRoomCode code s1)
           | Inr ((r, m), d') \<Rightarrow>
               (let s2 = cacheRoomData (room_ident r)
                           \<lparr>view_room = r, view_members = None, view_creator = None,
                            memberCount = Some 1\<rparr> now (s1\<lparr>db := d'\<rparr>)
                in case redis_setEx now (room_code_keys (kv s2)) code
                          (expiresIn data * 60 * 60) (room_ident r) of
                     Inl e \<Rightarrow> (Inl e, releaseRoomCode code s2)
                   | Inr codes \<Rightarrow> (Inr r, s2\<lparr>kv := (kv s2)\<lparr>room_code_keys := codes\<rparr>\<rparr>))))"

subsection \<open>joinRoom\<close>

text \<open>The room id comes from the code mapping of the cache, or, when the cache has none,
  from the durable store, which must hold an active room of that code.\<close>

definition resolveRoomId :: "string \<Rightarrow> int \<Rightarrow> system \<Rightarrow> error + string" where
  "resolveRoomId code now s =
     (let cachedId = kv_get now (room_code_keys (kv s)) code in
      if truthy cachedId then Inr (or_else cachedId [])
      else (case find_room_by_code (db s) code of
              None \<Rightarrow> Inl RoomNotFoundOrInactive
            | Some r \<Rightarrow>
                if room_status r \<noteq> ''active'' then Inl RoomNotFoundOrInactive
                else Inr (room_ident r)))"

text \<open>The script that releases the lock: the key is deleted when its value is the
  caller's token, and nothing happens otherwise.\<close>

definition release_lock ::
  "int \<Rightarrow> (string \<rightharpoonup> string entry) \<Rightarrow> string \<Rightarrow> string \<Rightarrow> (string \<rightharpoonup> string entry)" where
  "release_lock now m lockKey lockValue =
     (if kv_get now m lockKey = Some lockValue then kv_del m lockKey else m)"

definition releaseJoinLock :: "string \<Rightarrow> string \<Rightarrow> int \<Rightarrow> system \<Rightarrow> system" where
  "releaseJoinLock roomId lockValue now s =
     s\<lparr>kv := (kv s)\<lparr>join_lock_keys :=
          release_lock now (join_lock_keys (kv s)) roomId lockValue\<rparr>\<rparr>"

text \<open>The transaction of \<open>joinRoom\<close>. The checks come in the order of the source: the
  room exists, is active, has not expired, is not full; then the user's row, whatever its
  status, is looked up.\<close>

definition joinRoom_tx ::
  "database \<Rightarrow> string \<Rightarrow> string \<Rightarrow> string option \<Rightarrow> int \<Rightarrow> string
     \<Rightarrow> error + (join_result \<times> database)" where
  "joinRoom_tx d roomId uid nick now member_uuid =
     (case find_room d roomId of
        None \<Rightarrow> Inl RoomNotFound
      | Some r \<Rightarrow>
          if room_status r \<noteq> ''active'' then Inl RoomNotActive
          else if (case expires_at r of None \<Rightarrow> False | Some t \<Rightarrow> t < now) then Inl RoomExpired
          else
            (let members = active_members d roomId in
             if int (length members) \<ge> max_members r then Inl RoomFull
             else
               (case find_member d roomId uid of
                  Some existingMember \<Rightarrow>
                    if status existingMember = ''active'' then Inl AlreadyMember
                    else
                      (let upd = (\<lambda>m. m\<lparr>status := ''active'',
                                         nickname := or_else nick (nickname existingMember),
                                         last_seen := Some now\<rparr>)
                       in Inr (\<lparr>joined_room = r,
                                joined_room_members = map member_ident members,
                                joined_room_creator = map_option user_name (find_user d (created_by r)),
                                roomMember = upd existingMember, isRejoining = True\<rparr>,
                               update_member_row d (member_ident existingMember) upd))
                | None \<Rightarrow>
                    (let m = \<lparr>member_ident = member_uuid, room_id = roomId, user_id = uid,
                              nickname = or_else nick ''Member'', role = ''member'',
                              status = ''active'', joined_at = now, left_at = None,
                              last_seen = Some now,
                              join_order = int (length members) + 1\<rparr>
                     in case create_member_row d m of
                          Inl e \<Rightarrow> Inl e
                        | Inr d' \<Rightarrow>
                            Inr (\<lparr>joined_room = r,
                                  joined_room_members = map member_ident members,
                                  joined_room_creator = map_option user_name (find_user d (created_by r)),
                                  roomMember = m, isRejoining = False\<rparr>, d')))))"

text \<open>The \<open>try\<close> block of \<open>joinRoom\<close>: the transaction, then the cached member count.\<close>

definition joinRoom_locked ::
  "string \<Rightarrow> JoinRoomData \<Rightarrow> int \<Rightarrow> string \<Rightarrow> system \<Rightarrow> (error + join_result) \<times> system" where
  "joinRoom_locked roomId data now member_uuid s =
     (case joinRoom_tx (db s) roomId (userId data) (joinNickname data) now member_uuid of
        Inl e \<Rightarrow> (Inl e, s)
      | Inr (res, d') \<Rightarrow> (Inr res, updateRoomMemberCount roomId 1 now (s\<lparr>db := d'\<rparr>)))"

text \<open>\<open>joinRoom\<close>: resolve the id, take the lock for 10000 milliseconds under a fresh
  token, run the \<open>try\<close> block, and in the \<open>finally\<close> block release the lock.

  The \<open>try\<close> block awaits the durable store and the key-value store, and the \<open>finally\<close>
  block runs when it has settled: \<open>now'\<close> is the clock of the key-value store when the
  release script runs, and \<open>others\<close> is what the other clients have done to the
  key-value store in the meantime (nothing, or for instance taking the lock once it has
  expired).\<close>

definition joinRoom_during ::
  "(redis \<Rightarrow> redis) \<Rightarrow> int \<Rightarrow> JoinRoomData \<Rightarrow> int \<Rightarrow> string \<Rightarrow> string \<Rightarrow> system
     \<Rightarrow> (error + join_result) \<times> system" where
  "joinRoom_during others now' data now lockValue member_uuid s =
     (case resolveRoomId (roomCode data) now s of
        Inl e \<Rightarrow> (Inl e, s)
      | Inr roomId \<Rightarrow>
          (case kv_set_px_nx now (join_lock_keys (kv s)) roomId lockValue 10000 of
             (False, _) \<Rightarrow> (Inl RoomBeingModified, s)
           | (True, locks) \<Rightarrow>
               (case joinRoom_locked roomId data now member_uuid
                       (s\<lparr>kv := (kv s)\<lparr>join_lock_keys := locks\<rparr>\<rparr>) of
                  (res, s') \<Rightarrow>
                    (res, releaseJoinLock roomId lockValue now' (s'\<lparr>kv := others (kv s')\<rparr>)))))"

text \<open>\<open>joinRoom\<close> with no other client at work and no time passing.\<close>

definition joinRoom ::
  "JoinRoomData \<Rightarrow> int \<Rightarrow> string \<Rightarrow> string \<Rightarrow> system \<Rightarrow> (error + join_result) \<times> system" where
  "joinRoom data now lockValue member_uuid s =
     joinRoom_during (\<lambda>k. k) now data now lockValue member_uuid s"

subsection \<open>leaveRoom\<close>

text \<open>The successor of a leaving owner: the active member of the room, other than the
  leaving user, that comes first by join order.\<close>

definition next_member :: "database \<Rightarrow> string \<Rightarrow> string \<Rightarrow> room_member option" where
  "next_member d roomId uid =
     first_by_join_order
       (filter (\<lambda>m. room_id m = roomId \<and> user_id m \<noteq> uid \<and> status m = ''active'')
          (room_members d))"

text \<open>The transaction of \<open>leaveRoom\<close>. A row that is already left is returned as it is;
  otherwise the row is marked left, and when it was the owner's either the successor
  becomes owner or the room is closed.\<close>

definition leaveRoom_tx ::
  "database \<Rightarrow> string \<Rightarrow> string \<Rightarrow> int \<Rightarrow> error + (room_member \<times> database)" where
  "leaveRoom_tx d roomId uid now =
     (case find_member d roomId uid of
        None \<Rightarrow> Inl NotMember
      | Some rm \<Rightarrow>
          if status rm = ''left'' then Inr (rm, d)
          else if status rm \<noteq> ''active'' then Inl NotActiveMember
          else
            (let upd = (\<lambda>m. m\<lparr>status := ''left'', left_at := Some now\<rparr>);
                 d1 = update_member_where d
                        (\<lambda>m. member_ident m = member_ident rm \<and> status m = ''active'') upd
             in if role rm = ''owner''
                then
                  (case next_member d1 roomId uid of
                     Some nextMember \<Rightarrow>
                       Inr (upd rm,
                            update_member_row d1 (member_ident nextMember)
                              (\<lambda>m. m\<lparr>role := ''owner''\<rparr>))
                   | None \<Rightarrow>
                       (case update_room_row d1 roomId
                               (\<lambda>r. r\<lparr>room_status := ''closed'', completed_at := Some now,
                                      updated_at := now\<rparr>) of
                          Inl e \<Rightarrow> Inl e
                        | Inr d2 \<Rightarrow> Inr (upd rm, d2)))
                else Inr (upd rm, d1)))"

text \<open>\<open>leaveRoom\<close>: after the transaction, when the returned row has status left, the
  cached count is decremented and the user's location and membership-set entry are
  removed.\<close>

definition leaveRoom :: "string \<Rightarrow> string \<Rightarrow> int \<Rightarrow> system \<Rightarrow> (error + room_member) \<times> system" where
  "leaveRoom roomId uid now s =
     (case leaveRoom_tx (db s) roomId uid now of
        Inl e \<Rightarrow> (Inl e, s)
      | Inr (result, d') \<Rightarrow>
          (let s1 = s\<lparr>db := d'\<rparr> in
           if status result = ''left''
           then
             (let s2 = updateRoomMemberCount roomId (- 1) now s1 in
              (Inr result,
               s2\<lparr>kv := (kv s2)\<lparr>location_keys := kv_del (location_keys (kv s2)) (roomId, uid),
                                  room_members_keys :=
                                    kv_sRem now (room_members_keys (kv s2)) roomId uid\<rparr>\<rparr>))
           else (Inr result, s1)))"

subsection \<open>getRoomDetails\<close>

text \<open>\<open>getRoomDetails\<close>: a cached entry is returned after the membership-set check that
  a supplied user id asks for; without a cached entry the room is read from the durable
  store with its active members in join order, checked, cached and returned.\<close>

definition getRoomDetails ::
  "string \<Rightarrow> string option \<Rightarrow> int \<Rightarrow> system \<Rightarrow> (error + room_view) \<times> system" where
  "getRoomDetails roomId uid now s =
     (case kv_get now (room_keys (kv s)) roomId of
        Some roomData \<Rightarrow>
          if truthy uid \<and> \<not> kv_sIsMember now (room_members_keys (kv s)) roomId (or_else uid [])
          then (Inl AccessDenied, s)
          else (Inr roomData, s)
      | None \<Rightarrow>
          (case find_room (db s) roomId of
             None \<Rightarrow> (Inl RoomNotFound, s)
           | Some r \<Rightarrow>
               (let members = sort_key join_order (active_members (db s) roomId);
                    roomData = \<lparr>view_room = r,
                                view_members =
                                  Some (map (\<lambda>m. \<lparr>view_member = m,
                                                   view_user = find_user (db s) (user_id m)\<rparr>)
                                          members),
                                view_creator = find_user (db s) (created_by r),
                                memberCount = None\<rparr>
                in if truthy uid \<and> \<not> list_ex (\<lambda>m. user_id m = or_else uid []) members
                   then (Inl AccessDenied, s)
                   else (Inr roomData, cacheRoomData roomId roomData now s))))"

section \<open>config/socket.ts: the chat handlers\<close>

record socket =
  socket_userId :: string
  socket_userName :: string

datatype emitted =
    EmitError string
  | EmitChatHistory "chat_message list"
  | Publish string chat_message      \<comment> \<open>room id of the channel \<open>chat:room:<roomId>:updates\<close>\<close>

definition CHAT_HISTORY_TTL_SECONDS :: int where
  "CHAT_HISTORY_TTL_SECONDS = 24 * 60 * 60"

definition find_active_member :: "database \<Rightarrow> string \<Rightarrow> string \<Rightarrow> room_member option" where
  "find_active_member d rid uid =
     find (\<lambda>m. room_id m = rid \<and> user_id m = uid \<and> status m = ''active'') (room_members d)"

text \<open>\<open>String.prototype.trim\<close> on the white space of the ASCII range.\<close>

definition is_space :: "char \<Rightarrow> bool" where
  "is_space c = (c \<in> set [CHR 0x09, CHR 0x0A, CHR 0x0B, CHR 0x0C, CHR 0x0D, CHR '' ''])"

definition trim :: "string \<Rightarrow> string" where
  "trim str = rev (dropWhile is_space (rev (dropWhile is_space str)))"

text \<open>\<open>send-message\<close>: an active member's message is pushed at the head of the room's
  list, the list's lifetime is set to 24 hours and the message is published.\<close>

definition send_message ::
  "socket \<Rightarrow> string \<Rightarrow> string \<Rightarrow> int \<Rightarrow> string \<Rightarrow> system \<Rightarrow> emitted list \<times> system" where
  "send_message sock roomId text now message_uuid s =
     (case find_active_member (db s) roomId (socket_userId sock) of
        None \<Rightarrow> ([EmitError ''Not authorized to send messages in this room''], s)
      | Some _ \<Rightarrow>
          (let chatMessage = \<lparr>message_ident = message_uuid, message_roomId = roomId,
                              message_userId = socket_userId sock,
                              message_userName = socket_userName sock,
                              content = trim text, timestamp = now\<rparr>
           in ([Publish roomId chatMessage],
               s\<lparr>kv := (kv s)\<lparr>chat_keys :=
                    kv_expire now (kv_lPush now (chat_keys (kv s)) roomId chatMessage)
                      roomId CHAT_HISTORY_TTL_SECONDS\<rparr>\<rparr>)))"

text \<open>\<open>request-chat-history\<close>: an active member receives the whole list, reversed.\<close>

definition request_chat_history :: "socket \<Rightarrow> string \<Rightarrow> int \<Rightarrow> system \<Rightarrow> emitted" where
  "request_chat_history sock roomId now s =
     (case find_active_member (db s) roomId (socket_userId sock) of
        None \<Rightarrow> EmitError ''Not authorized to access chat history''
      | Some _ \<Rightarrow> EmitChatHistory (rev (kv_lRange_all now (chat_keys (kv s)) roomId)))"

section \<open>Runs of the system\<close>

text \<open>A list of \<open>send-message\<close> events on one room, handled one after the other; each
  event is the sender's socket, the text, the clock reading and the fresh message id.\<close>

type_synonym send_event = "socket \<times> string \<times> int \<times> string"

fun send_messages :: "send_event list \<Rightarrow> string \<Rightarrow> system \<Rightarrow> system" where
  "send_messages [] roomId s = s"
| "send_messages ((sock, text, now, message_uuid) # rest) roomId s =
     send_messages rest roomId (snd (send_message sock roomId text now message_uuid s))"

definition event_socket :: "send_event \<Rightarrow> socket" where
  "event_socket ev = fst ev"

definition event_time :: "send_event \<Rightarrow> int" where
  "event_time ev = fst (snd (snd ev))"

definition message_of :: "string \<Rightarrow> send_event \<Rightarrow> chat_message" where
  "message_of roomId ev =
     (case ev of (sock, text, now, message_uuid) \<Rightarrow>
        \<lparr>message_ident = message_uuid, message_roomId = roomId,
         message_userId = socket_userId sock, message_userName = socket_userName sock,
         content = trim text, timestamp = now\<rparr>)"

text \<open>The clock readings of successive events: each follows the one before by less than
  the retention window, and so does the final reading \<open>t'\<close>.\<close>

fun paced :: "int list \<Rightarrow> int \<Rightarrow> bool" where
  "paced [] t' = True"
| "paced [t] t' = (t \<le> t' \<and> t' < t + CHAT_HISTORY_TTL_SECONDS * 1000)"
| "paced (t # u # ts) t' =
     (t \<le> u \<and> u < t + CHAT_HISTORY_TTL_SECONDS * 1000 \<and> paced (u # ts) t')"

text \<open>The concrete runs below start from a store with four users and no rooms, and an
  empty key-value store.\<close>

definition four_users :: "user list" where
  "four_users =
     [\<lparr>user_ident = ''A'', user_name = ''alice''\<rparr>, \<lparr>user_ident = ''B'', user_name = ''bob''\<rparr>,
      \<lparr>user_ident = ''C'', user_name = ''carol''\<rparr>, \<lparr>user_ident = ''D'', user_name = ''dave''\<rparr>]"

definition no_keys :: redis where
  "no_keys = \<lparr>room_code_keys = Map.empty, join_lock_keys = Map.empty, room_keys = Map.empty,
              room_members_keys = Map.empty, location_keys = Map.empty,
              chat_keys = Map.empty\<rparr>"

definition start :: system where
  "start = \<lparr>db = \<lparr>users = four_users, rooms = [], room_members = []\<rparr>, kv = no_keys\<rparr>"

definition trip :: "string \<Rightarrow> int \<Rightarrow> int \<Rightarrow> CreateRoomData" where
  "trip creator capacity hours =
     \<lparr>name = ''Trip'', destinationName = ''Beach'', destinationLat = 0, destinationLng = 0,
      maxMembers = capacity, expiresIn = hours, createdBy = creator\<rparr>"

definition join_as :: "string \<Rightarrow> JoinRoomData" where
  "join_as u = \<lparr>roomCode = ''ABC123'', userId = u, joinNickname = None\<rparr>"

text \<open>User A creates a room for eight members and 24 hours at time 1000.\<close>

definition created :: system where
  "created = snd (createRoom (trip ''A'' 8 24) (\<lambda>_. ''ABC123'') 1000 ''room-1'' ''member-1'' start)"

text \<open>B joins at 2000, leaves at 3000, and C joins at 4000.\<close>

definition b_joined :: system where
  "b_joined = snd (joinRoom (join_as ''B'') 2000 ''token-1'' ''member-2'' created)"

definition b_left :: system where
  "b_left = snd (leaveRoom ''room-1'' ''B'' 3000 b_joined)"

definition c_joined :: system where
  "c_joined = snd (joinRoom (join_as ''C'') 4000 ''token-2'' ''member-3'' b_left)"

text \<open>B and C join at 2000 and 2500, B leaves at 3000, and D joins at 4000.\<close>

definition c_joined_too :: system where
  "c_joined_too = snd (joinRoom (join_as ''C'') 2500 ''token-2'' ''member-3'' b_joined)"

definition b_left_of_three :: system where
  "b_left_of_three = snd (leaveRoom ''room-1'' ''B'' 3000 c_joined_too)"

definition d_joined :: system where
  "d_joined = snd (joinRoom (join_as ''D'') 4000 ''token-3'' ''member-4'' b_left_of_three)"

text \<open>After B joined, the owner A leaves at 3000 and joins again at 4000.\<close>

definition a_left :: system where
  "a_left = snd (leaveRoom ''room-1'' ''A'' 3000 b_joined)"

definition a_rejoined :: system where
  "a_rejoined = snd (joinRoom (join_as ''A'') 4000 ''token-2'' ''member-3'' a_left)"

text \<open>The owner A leaves the room it created alone, at 2000: the room is closed.\<close>

definition closed_room :: system where
  "closed_room = snd (leaveRoom ''room-1'' ''A'' 2000 created)"

text \<open>A room for two members and one hour, created at 1000 and full once B has joined.\<close>

definition small_created :: system where
  "small_created =
     snd (createRoom (trip ''A'' 2 1) (\<lambda>_. ''ABC123'') 1000 ''room-1'' ''member-1'' start)"

definition small_full :: system where
  "small_full = snd (joinRoom (join_as ''B'') 2000 ''token-1'' ''member-2'' small_created)"

text \<open>A room for two hours, created at 0; A reads its details at 4000000, after the
  cached entry of the creation has expired, so that the entry is written again.\<close>

definition two_hours :: system where
  "two_hours = snd (createRoom (trip ''A'' 8 2) (\<lambda>_. ''ABC123'') 0 ''room-1'' ''member-1'' start)"

definition details_read :: system where
  "details_read = snd (getRoomDetails ''room-1'' (Some ''A'') 4000000 two_hours)"

text \<open>Another client takes the join lock of room-1 under token-2 at 12500, if it is
  free then.\<close>

definition retake_lock :: "redis \<Rightarrow> redis" where
  "retake_lock k =
     k\<lparr>join_lock_keys := snd (kv_set_px_nx 12500 (join_lock_keys k) ''room-1'' ''token-2'' 10000)\<rparr>"

text \<open>Two chat events on the room in which A and B are active: A's at 5000, B's at
  6000.\<close>

definition hello :: send_event where
  "hello = (\<lparr>socket_userId = ''A'', socket_userName = ''alice''\<rparr>, ''hello'', 5000, ''message-1'')"

definition hi :: send_event where
  "hi = (\<lparr>socket_userId = ''B'', socket_userName = ''bob''\<rparr>, '' hi '', 6000, ''message-2'')"

definition socket_of :: "string \<Rightarrow> string \<Rightarrow> socket" where
  "socket_of u n = \<lparr>socket_userId = u, socket_userName = n\<rparr>"

section \<open>Basic facts\<close>

lemmas kv_defs = kv_get_def kv_setEx_def kv_del_def kv_expire_def kv_set_px_nx_def live_def
  kv_sIsMember_def kv_sAdd_def kv_sRem_def kv_lPush_def kv_lRange_all_def

lemmas db_defs = find_user_def find_room_def find_room_by_code_def find_member_def
  active_members_def create_room_row_def create_member_row_def update_member_row_def
  update_room_row_def update_member_where_def first_by_join_order_def next_member_def
  find_active_member_def

lemmas service_defs = truthy_def or_else_def generateRoomCode_def releaseRoomCode_def
  cached_member_count_def cacheRoomData_def updateRoomMemberCount_def createRoom_tx_def
  createRoom_def resolveRoomId_def release_lock_def releaseJoinLock_def joinRoom_tx_def
  joinRoom_locked_def joinRoom_during_def joinRoom_def leaveRoom_tx_def leaveRoom_def
  getRoomDetails_def redis_setEx_def

lemmas run_defs = four_users_def no_keys_def start_def trip_def join_as_def created_def
  b_joined_def b_left_def c_joined_def a_left_def a_rejoined_def closed_room_def
  small_created_def small_full_def two_hours_def details_read_def retake_lock_def
  socket_of_def c_joined_too_def b_left_of_three_def d_joined_def hello_def hi_def

lemmas eval_defs = run_defs service_defs db_defs kv_defs numeral_eq_Suc Let_def

text \<open>\<open>joinRoom\<close> unfolded: the release follows the \<open>try\<close> block at once.\<close>

lemma joinRoom_alone:
  "joinRoom data now lockValue member_uuid s =
     (case resolveRoomId (roomCode data) now s of
        Inl e \<Rightarrow> (Inl e, s)
      | Inr roomId \<Rightarrow>
          (case kv_set_px_nx now (join_lock_keys (kv s)) roomId lockValue 10000 of
             (False, _) \<Rightarrow> (Inl RoomBeingModified, s)
           | (True, locks) \<Rightarrow>
               (case joinRoom_locked roomId data now member_uuid
                       (s\<lparr>kv := (kv s)\<lparr>join_lock_keys := locks\<rparr>\<rparr>) of
                  (res, s') \<Rightarrow> (res, releaseJoinLock roomId lockValue now s'))))"
  by (simp add: joinRoom_def joinRoom_during_def split: sum.splits prod.splits bool.splits)

lemma updateRoomMemberCount_db [simp]: "db (updateRoomMemberCount rid delta now s) = db s"
  by (simp add: updateRoomMemberCount_def split: option.splits)

lemma updateRoomMemberCount_locks [simp]:
  "join_lock_keys (kv (updateRoomMemberCount rid delta now s)) = join_lock_keys (kv s)"
  by (simp add: updateRoomMemberCount_def split: option.splits)

lemma joinRoom_locked_locks [simp]:
  "join_lock_keys (kv (snd (joinRoom_locked rid data now uuid s))) = join_lock_keys (kv s)"
  by (simp add: joinRoom_locked_def split: sum.splits prod.splits)

lemma generateRoomCode_loop_reserves:
  "generateRoomCode_loop remaining attempts rand now s = (Inr code, s1) \<Longrightarrow>
   s1 = s\<lparr>kv := (kv s)\<lparr>room_code_keys :=
          kv_setEx now (room_code_keys (kv s)) code 300 ''reserved''\<rparr>\<rparr>"
proof (induction remaining arbitrary: attempts)
  case 0
  then show ?case by simp
next
  case (Suc remaining)
  show ?case
  proof (cases "find_room_by_code (db s) (rand attempts) = None
         \<and> \<not> truthy (kv_get now (room_code_keys (kv s)) (rand attempts))")
    case True
    with Suc.prems show ?thesis by (auto simp: Let_def)
  next
    case False
    with Suc.prems have "generateRoomCode_loop remaining (Suc attempts) rand now s = (Inr code, s1)"
      by (auto simp: Let_def)
    then show ?thesis by (rule Suc.IH)
  qed
qed

text \<open>A map over the rows that keeps the looked-up columns commutes with \<open>find\<close>.\<close>

lemma find_map_keeping:
  "(\<And>x. P (g x) = P x) \<Longrightarrow> find P (map g xs) = map_option g (find P xs)"
  by (induction xs) simp_all

section \<open>The lock of joinRoom\<close>

text \<open>
  Claim C3. Let the room id be resolved, let the \<open>try\<close> block, started with the lock key
  holding the caller's token for 10000 milliseconds, end in the result \<open>res\<close> and the
  state \<open>s1\<close>, and let the other clients turn the key-value store of \<open>s1\<close> into
  \<open>others (kv s1)\<close> before the release runs at \<open>now'\<close>. If the lock is taken when joinRoom
  asks for it, joinRoom fails with "being modified" and changes nothing. If the lock is
  free, joinRoom returns \<open>res\<close>, success or failure alike, the token is in the store
  during the \<open>try\<close> block, and the final key-value store is the one the others left with
  the release applied to it under that token: when the live value of the lock key is
  the token, the key is deleted and nothing else changes; when it is another token, or
  the key is absent or expired, the store is exactly as the others left it, so that a
  lock taken by another holder stays in place. With no other client and no time
  passing, the lock key is absent after joinRoom.
\<close>

theorem joinRoom_releases_lock:
  assumes "resolveRoomId (roomCode data) now s = Inr rid"
      and "joinRoom_locked rid data now uuid
             (s\<lparr>kv := (kv s)\<lparr>join_lock_keys :=
                   (join_lock_keys (kv s))(rid \<mapsto> (lockValue, Some (now + 10000)))\<rparr>\<rparr>)
           = (res, s1)"
      and "joinRoom_during others now' data now lockValue uuid s = (out, s2)"
  shows "(kv_get now (join_lock_keys (kv s)) rid \<noteq> None \<longrightarrow>
            out = Inl RoomBeingModified \<and> s2 = s)
       \<and> (kv_get now (join_lock_keys (kv s)) rid = None \<longrightarrow>
            out = res \<and> db s2 = db s1
            \<and> join_lock_keys (kv s1) rid = Some (lockValue, Some (now + 10000))
            \<and> kv s2 = (others (kv s1))\<lparr>join_lock_keys :=
                          release_lock now' (join_lock_keys (others (kv s1))) rid lockValue\<rparr>
            \<and> (kv_get now' (join_lock_keys (others (kv s1))) rid = Some lockValue \<longrightarrow>
                  kv s2 = (others (kv s1))\<lparr>join_lock_keys :=
                             (join_lock_keys (others (kv s1)))(rid := None)\<rparr>)
            \<and> (kv_get now' (join_lock_keys (others (kv s1))) rid \<noteq> Some lockValue \<longrightarrow>
                  kv s2 = others (kv s1))
            \<and> (\<forall>other. other \<noteq> lockValue
                  \<and> kv_get now' (join_lock_keys (others (kv s1))) rid = Some other \<longrightarrow>
                  kv_get now' (join_lock_keys (kv s2)) rid = Some other)
            \<and> join_lock_keys (kv (snd (joinRoom data now lockValue uuid s))) rid = None)"
proof (cases "kv_get now (join_lock_keys (kv s)) rid = None")
  case False
  with assms(1,3) show ?thesis
    by (auto simp: joinRoom_during_def kv_set_px_nx_def)
next
  case True
  have stored: "join_lock_keys (kv s1) rid = Some (lockValue, Some (now + 10000))"
    using joinRoom_locked_locks [of rid data now uuid
        "s\<lparr>kv := (kv s)\<lparr>join_lock_keys :=
              (join_lock_keys (kv s))(rid \<mapsto> (lockValue, Some (now + 10000)))\<rparr>\<rparr>"]
    by (simp add: assms(2))
  from True assms have out: "out = res"
    and s2: "s2 = releaseJoinLock rid lockValue now' (s1\<lparr>kv := others (kv s1)\<rparr>)"
    by (simp_all add: joinRoom_during_def kv_set_px_nx_def)
  have final: "kv s2 = (others (kv s1))\<lparr>join_lock_keys :=
                          release_lock now' (join_lock_keys (others (kv s1))) rid lockValue\<rparr>"
    and db: "db s2 = db s1"
    by (simp_all add: s2 releaseJoinLock_def)
  have del: "kv s2 = (others (kv s1))\<lparr>join_lock_keys :=
                             (join_lock_keys (others (kv s1)))(rid := None)\<rparr>"
    if "kv_get now' (join_lock_keys (others (kv s1))) rid = Some lockValue"
    using that by (simp add: final release_lock_def kv_del_def)
  have keep: "kv s2 = others (kv s1)"
    if "kv_get now' (join_lock_keys (others (kv s1))) rid \<noteq> Some lockValue"
    using that by (simp add: final release_lock_def)
  have foreign: "kv_get now' (join_lock_keys (kv s2)) rid = Some other"
    if "other \<noteq> lockValue" "kv_get now' (join_lock_keys (others (kv s1))) rid = Some other"
    for other
    using that keep by simp
  have alone: "join_lock_keys (kv (snd (joinRoom data now lockValue uuid s))) rid = None"
    using True assms(1,2) stored
    by (simp add: joinRoom_alone kv_set_px_nx_def releaseJoinLock_def release_lock_def
        kv_get_def kv_del_def live_def)
  from True out db stored final del keep foreign alone show ?thesis
    by blast
qed

text \<open>
  The theorem at work, for B joining at 2000 under token-1 the room A created. First the
  \<open>try\<close> block outlasts the lock: the lock expires at 12000, another client takes it
  under token-2 at 12500, and the release at 13000 leaves token-2's lock in place while
  the join has succeeded. Then, with no other client, the release at 2500 deletes the
  key. Last, a join that finds token-2's lock fails and changes nothing.
\<close>

theorem joinRoom_releases_lock_witness:
  "resolveRoomId (roomCode (join_as ''B'')) 2000 created = Inr ''room-1''
   \<and> kv_get 2000 (join_lock_keys (kv created)) ''room-1'' = None
   \<and> \<not> isl (fst (joinRoom_during retake_lock 13000 (join_as ''B'') 2000 ''token-1'' ''member-2''
                    created))
   \<and> kv_get 13000
        (join_lock_keys
           (kv (snd (joinRoom_during retake_lock 13000 (join_as ''B'') 2000 ''token-1''
                       ''member-2'' created))))
        ''room-1'' = Some ''token-2''
   \<and> join_lock_keys
        (kv (snd (joinRoom_during (\<lambda>k. k) 2500 (join_as ''B'') 2000 ''token-1'' ''member-2''
                    created)))
        ''room-1'' = None
   \<and> kv_get 13000 (join_lock_keys (retake_lock (kv created))) ''room-1'' = Some ''token-2''
   \<and> joinRoom_during (\<lambda>k. k) 13500 (join_as ''B'') 13000 ''token-1'' ''member-2''
        (created\<lparr>kv := retake_lock (kv created)\<rparr>)
      = (Inl RoomBeingModified, created\<lparr>kv := retake_lock (kv created)\<rparr>)"
proof -
  let ?locked = "created\<lparr>kv := (kv created)\<lparr>join_lock_keys :=
                   (join_lock_keys (kv created))(''room-1'' \<mapsto> (''token-1'', Some (2000 + 10000)))\<rparr>\<rparr>"
  let ?body = "joinRoom_locked ''room-1'' (join_as ''B'') 2000 ''member-2'' ?locked"
  let ?late = "joinRoom_during retake_lock 13000 (join_as ''B'') 2000 ''token-1'' ''member-2'' created"
  let ?soon = "joinRoom_during (\<lambda>k. k) 2500 (join_as ''B'') 2000 ''token-1'' ''member-2'' created"
  let ?held = "created\<lparr>kv := retake_lock (kv created)\<rparr>"
  let ?busy = "joinRoom_during (\<lambda>k. k) 13500 (join_as ''B'') 13000 ''token-1'' ''member-2'' ?held"
  have r1: "resolveRoomId (roomCode (join_as ''B'')) 2000 created = Inr ''room-1''"
    by (simp add: eval_defs)
  have f1: "kv_get 2000 (join_lock_keys (kv created)) ''room-1'' = None"
    by (simp add: eval_defs)
  have body: "?body = (fst ?body, snd ?body)"
    by simp
  have ok: "\<not> isl (fst ?body)"
    by (simp add: eval_defs)
  have taken: "kv_get 13000 (join_lock_keys (retake_lock (kv (snd ?body)))) ''room-1''
                 = Some ''token-2''"
    by (simp add: eval_defs)
  have mine: "kv_get 2500 (join_lock_keys (kv (snd ?body))) ''room-1'' = Some ''token-1''"
    by (simp add: eval_defs)
  have late_pair: "?late = (fst ?late, snd ?late)" and soon_pair: "?soon = (fst ?soon, snd ?soon)"
    by simp_all
  note late = joinRoom_releases_lock [OF r1 body late_pair, THEN conjunct2, THEN mp, OF f1]
  note soon = joinRoom_releases_lock [OF r1 body soon_pair, THEN conjunct2, THEN mp, OF f1]
  have same: "fst ?late = fst ?body"
    by (rule late [THEN conjunct1])
  have a: "\<not> isl (fst ?late)"
    unfolding same by (rule ok)
  have other: "''token-2'' \<noteq> ''token-1''"
    by simp
  have b: "kv_get 13000 (join_lock_keys (kv (snd ?late))) ''room-1'' = Some ''token-2''"
    by (rule late [THEN conjunct2, THEN conjunct2, THEN conjunct2, THEN conjunct2,
          THEN conjunct2, THEN conjunct2, THEN conjunct1, THEN spec, THEN mp,
          OF conjI [OF other taken]])
  have "kv (snd ?soon) = (kv (snd ?body))\<lparr>join_lock_keys :=
                             (join_lock_keys (kv (snd ?body)))(''room-1'' := None)\<rparr>"
    by (rule soon [THEN conjunct2, THEN conjunct2, THEN conjunct2, THEN conjunct2,
          THEN conjunct1, THEN mp, OF mine])
  then have c: "join_lock_keys (kv (snd ?soon)) ''room-1'' = None"
    by simp
  have r2: "resolveRoomId (roomCode (join_as ''B'')) 13000 ?held = Inr ''room-1''"
    by (simp add: eval_defs)
  have h2: "kv_get 13000 (join_lock_keys (retake_lock (kv created))) ''room-1'' = Some ''token-2''"
    by (simp add: eval_defs)
  have body2: "joinRoom_locked ''room-1'' (join_as ''B'') 13000 ''member-2''
                 (?held\<lparr>kv := (kv ?held)\<lparr>join_lock_keys :=
                     (join_lock_keys (kv ?held))(''room-1'' \<mapsto> (''token-1'', Some (13000 + 10000)))\<rparr>\<rparr>)
               = (fst (joinRoom_locked ''room-1'' (join_as ''B'') 13000 ''member-2''
                 (?held\<lparr>kv := (kv ?held)\<lparr>join_lock_keys :=
                     (join_lock_keys (kv ?held))(''room-1'' \<mapsto> (''token-1'', Some (13000 + 10000)))\<rparr>\<rparr>)),
                  snd (joinRoom_locked ''room-1'' (join_as ''B'') 13000 ''member-2''
                 (?held\<lparr>kv := (kv ?held)\<lparr>join_lock_keys :=
                     (join_lock_keys (kv ?held))(''room-1'' \<mapsto> (''token-1'', Some (13000 + 10000)))\<rparr>\<rparr>)))"
    by simp
  have busy_pair: "?busy = (fst ?busy, snd ?busy)"
    by simp
  have h3: "kv_get 13000 (join_lock_keys (kv ?held)) ''room-1'' \<noteq> None"
    using h2 by simp
  have "fst ?busy = Inl RoomBeingModified \<and> snd ?busy = ?held"
    by (rule joinRoom_releases_lock [OF r2 body2 busy_pair, THEN conjunct1, THEN mp, OF h3])
  then have d: "?busy = (Inl RoomBeingModified, ?held)"
    by (simp add: prod_eq_iff)
  show ?thesis by (intro conjI r1 f1 a b c h2 d)
qed

section \<open>The reservation of createRoom\<close>

lemma cacheRoomData_codes [simp]:
  "room_code_keys (kv (cacheRoomData rid v now s)) = room_code_keys (kv s)"
  by (simp add: cacheRoomData_def Let_def split: option.splits)

lemma cacheRoomData_db [simp]: "db (cacheRoomData rid v now s) = db s"
  by (simp add: cacheRoomData_def Let_def split: option.splits)

text \<open>
  Claim C7. When the code allocation of createRoom has returned a code (and so reserved
  it) and createRoom then fails, the reservations it leaves are those from before the
  call without that code: the code's key is absent and no other reservation is
  touched. The failure is one of two. Either the transaction failed: the error is the
  transaction's, and the state is the state after the allocation with the reservation
  released, the durable store being as before the call. Or the transaction committed
  and storing the code mapping failed, the lifetime not being positive: the rows stay
  committed, and the state is the state after caching the room with the reservation
  released.
\<close>

theorem createRoom_failure_releases_code:
  assumes "generateRoomCode rand now s = (Inr code, s1)"
      and "createRoom data rand now room_uuid member_uuid s = (Inl e, s')"
  shows "room_code_keys (kv s1) code = Some (''reserved'', Some (now + 300 * 1000))
       \<and> room_code_keys (kv s') code = None
       \<and> room_code_keys (kv s') = (room_code_keys (kv s))(code := None)
       \<and> (case createRoom_tx (db s) data code now room_uuid member_uuid of
             Inl e' \<Rightarrow> e = e' \<and> s' = releaseRoomCode code s1 \<and> db s' = db s
           | Inr ((r, m), d') \<Rightarrow>
               e = InvalidExpireTime \<and> expiresIn data * 60 * 60 \<le> 0 \<and> db s' = d'
               \<and> s' = releaseRoomCode code
                         (cacheRoomData (room_ident r)
                            \<lparr>view_room = r, view_members = None, view_creator = None,
                             memberCount = Some 1\<rparr> now (s1\<lparr>db := d'\<rparr>)))"
proof -
  have s1: "s1 = s\<lparr>kv := (kv s)\<lparr>room_code_keys :=
          kv_setEx now (room_code_keys (kv s)) code 300 ''reserved''\<rparr>\<rparr>"
    using assms(1) unfolding generateRoomCode_def by (rule generateRoomCode_loop_reserves)
  have db1: "db s1 = db s" and codes1: "room_code_keys (kv s1)
        = (room_code_keys (kv s))(code \<mapsto> (''reserved'', Some (now + 300 * 1000)))"
    by (simp_all add: s1 kv_setEx_def)
  show ?thesis
  proof (cases "createRoom_tx (db s) data code now room_uuid member_uuid")
    case (Inl e')
    with assms have "e = e'" "s' = releaseRoomCode code s1"
      by (simp_all add: createRoom_def db1)
    with Inl show ?thesis
      by (simp add: codes1 db1 releaseRoomCode_def kv_del_def)
  next
    case (Inr p)
    obtain r m d' where p: "p = ((r, m), d')" by (cases p) auto
    let ?s2 = "cacheRoomData (room_ident r)
                 \<lparr>view_room = r, view_members = None, view_creator = None,
                  memberCount = Some 1\<rparr> now (s1\<lparr>db := d'\<rparr>)"
    from assms Inr p have "e = InvalidExpireTime" "expiresIn data * 60 * 60 \<le> 0"
        "s' = releaseRoomCode code ?s2"
      by (auto simp: createRoom_def db1 Let_def redis_setEx_def split: if_splits)
    with Inr p show ?thesis
      by (simp add: codes1 releaseRoomCode_def kv_del_def)
  qed
qed

text \<open>The theorem at work. A creator that is not a user makes the insert fail on the
  foreign key: the code ABC123, reserved by the allocation, is free again and no room is
  stored. A lifetime of 0 hours makes storing the code mapping fail after the room and
  its owner have been committed: the code is free again, and the room stays.\<close>

theorem createRoom_failure_releases_code_witness:
  "fst (generateRoomCode (\<lambda>_. ''ABC123'') 1000 start) = Inr ''ABC123''
   \<and> kv_get 1000 (room_code_keys (kv (snd (generateRoomCode (\<lambda>_. ''ABC123'') 1000 start))))
        ''ABC123'' = Some ''reserved''
   \<and> fst (createRoom (trip ''Z'' 8 24) (\<lambda>_. ''ABC123'') 1000 ''room-1'' ''member-1'' start)
        = Inl ForeignKeyConstraintFailed
   \<and> room_code_keys
        (kv (snd (createRoom (trip ''Z'' 8 24) (\<lambda>_. ''ABC123'') 1000 ''room-1'' ''member-1'' start)))
        ''ABC123'' = None
   \<and> rooms (db (snd (createRoom (trip ''Z'' 8 24) (\<lambda>_. ''ABC123'') 1000 ''room-1'' ''member-1''
                       start))) = []
   \<and> fst (createRoom (trip ''A'' 8 0) (\<lambda>_. ''ABC123'') 1000 ''room-1'' ''member-1'' start)
        = Inl InvalidExpireTime
   \<and> room_code_keys
        (kv (snd (createRoom (trip ''A'' 8 0) (\<lambda>_. ''ABC123'') 1000 ''room-1'' ''member-1'' start)))
        ''ABC123'' = None
   \<and> map room_ident
        (rooms (db (snd (createRoom (trip ''A'' 8 0) (\<lambda>_. ''ABC123'') 1000 ''room-1'' ''member-1''
                          start)))) = [''room-1'']"
proof -
  let ?gen = "generateRoomCode (\<lambda>_. ''ABC123'') 1000 start"
  let ?fk = "createRoom (trip ''Z'' 8 24) (\<lambda>_. ''ABC123'') 1000 ''room-1'' ''member-1'' start"
  let ?ex = "createRoom (trip ''A'' 8 0) (\<lambda>_. ''ABC123'') 1000 ''room-1'' ''member-1'' start"
  have g1: "fst ?gen = Inr ''ABC123''"
    by (simp add: eval_defs)
  have r: "kv_get 1000 (room_code_keys (kv (snd ?gen))) ''ABC123'' = Some ''reserved''"
    by (simp add: eval_defs)
  have c1: "fst ?fk = Inl ForeignKeyConstraintFailed"
    by (simp add: eval_defs)
  have c2: "fst ?ex = Inl InvalidExpireTime"
    by (simp add: eval_defs)
  have none: "rooms (db (snd ?fk)) = []"
    by (simp add: eval_defs)
  have kept: "map room_ident (rooms (db (snd ?ex))) = [''room-1'']"
    by (simp add: eval_defs)
  have g: "?gen = (Inr ''ABC123'', snd ?gen)"
    using g1 by (simp add: prod_eq_iff)
  have fk: "?fk = (Inl ForeignKeyConstraintFailed, snd ?fk)"
    using c1 by (simp add: prod_eq_iff)
  have ex: "?ex = (Inl InvalidExpireTime, snd ?ex)"
    using c2 by (simp add: prod_eq_iff)
  have k1: "room_code_keys (kv (snd ?fk)) ''ABC123'' = None"
    by (rule createRoom_failure_releases_code [OF g fk, THEN conjunct2, THEN conjunct1])
  have k2: "room_code_keys (kv (snd ?ex)) ''ABC123'' = None"
    by (rule createRoom_failure_releases_code [OF g ex, THEN conjunct2, THEN conjunct1])
  show ?thesis by (intro conjI g1 r c1 k1 none c2 k2 kept)
qed

section \<open>leaveRoom called again\<close>

lemma leaveRoom_tx_marks_left:
  assumes "leaveRoom_tx d rid uid now = Inr (m1, d')"
  shows "\<exists>m'. find_member d' rid uid = Some m' \<and> status m' = ''left''"
proof -
  obtain rm where rm: "find_member d rid uid = Some rm"
    using assms by (auto simp: leaveRoom_tx_def split: option.splits)
  let ?Q = "\<lambda>m. room_id m = rid \<and> user_id m = uid"
  let ?upd = "\<lambda>m. m\<lparr>status := ''left'', left_at := Some now\<rparr>"
  let ?d1 = "update_member_where d
               (\<lambda>m. member_ident m = member_ident rm \<and> status m = ''active'') ?upd"
  show ?thesis
  proof (cases "status rm = ''left''")
    case True
    with assms rm show ?thesis by (auto simp: leaveRoom_tx_def)
  next
    case False
    with assms rm have act: "status rm = ''active''"
      by (auto simp: leaveRoom_tx_def split: if_splits)
    have f1: "find_member ?d1 rid uid = Some (?upd rm)"
      using rm act
      by (simp add: find_member_def update_member_where_def find_map_keeping)
    have keep: "find_member (update_member_row ?d1 i (\<lambda>m. m\<lparr>role := ''owner''\<rparr>)) rid uid
                  = map_option (\<lambda>m. if member_ident m = i then m\<lparr>role := ''owner''\<rparr> else m)
                      (find_member ?d1 rid uid)" for i
      by (simp add: find_member_def update_member_row_def find_map_keeping)
    have rooms: "find_member d2 rid uid = find_member ?d1 rid uid"
      if "update_room_row ?d1 rid f = Inr d2" for f d2
      using that by (auto simp: update_room_row_def find_member_def split: if_splits)
    from assms rm False act show ?thesis
      by (auto simp: leaveRoom_tx_def Let_def f1 keep dest: rooms
               split: if_splits option.splits sum.splits)
  qed
qed

text \<open>
  Claim C5. When the member's row already has status left, leaveRoom returns that row
  and the durable store is unchanged, so no ownership is transferred and no room changes
  status. When the pair (room, user) has no row, leaveRoom fails with NotMember and
  changes nothing. And after any leaveRoom that succeeded, a second call for the same
  member succeeds again with a row of status left and leaves the durable store as the
  first call left it.
\<close>

theorem leaveRoom_idempotent:
  "(find_member (db s) rid uid = Some m \<and> status m = ''left'' \<longrightarrow>
      fst (leaveRoom rid uid now s) = Inr m \<and> db (snd (leaveRoom rid uid now s)) = db s)
   \<and> (find_member (db s) rid uid = None \<longrightarrow> leaveRoom rid uid now s = (Inl NotMember, s))
   \<and> (leaveRoom rid uid now s = (Inr m1, s1) \<longrightarrow>
        (\<exists>m2. fst (leaveRoom rid uid now' s1) = Inr m2 \<and> status m2 = ''left'')
        \<and> db (snd (leaveRoom rid uid now' s1)) = db s1)"
proof -
  have left: "fst (leaveRoom rid uid t x) = Inr r \<and> db (snd (leaveRoom rid uid t x)) = db x"
    if "find_member (db x) rid uid = Some r" "status r = ''left''" for x r t
    using that by (simp add: leaveRoom_def leaveRoom_tx_def Let_def)
  have again: "(\<exists>m2. fst (leaveRoom rid uid now' s1) = Inr m2 \<and> status m2 = ''left'')
        \<and> db (snd (leaveRoom rid uid now' s1)) = db s1"
    if "leaveRoom rid uid now s = (Inr m1, s1)"
  proof -
    from that obtain d' where tx: "leaveRoom_tx (db s) rid uid now = Inr (m1, d')"
      and d': "db s1 = d'"
      by (auto simp: leaveRoom_def Let_def split: sum.splits if_splits)
    from leaveRoom_tx_marks_left [OF tx] d'
    obtain m' where "find_member (db s1) rid uid = Some m'" "status m' = ''left''"
      by auto
    with left [of s1 m' now'] show ?thesis by auto
  qed
  show ?thesis
    using left [of s m now] again by (simp add: leaveRoom_def leaveRoom_tx_def)
qed

text \<open>The theorem at work: B, who left at 3000, leaves again at 3500; D, who never
  joined, cannot leave; and after the owner A left at 3000 (B became owner), A's second
  leave changes no row.\<close>

theorem leaveRoom_idempotent_witness:
  "(\<exists>m. find_member (db b_left) ''room-1'' ''B'' = Some m \<and> status m = ''left''
        \<and> fst (leaveRoom ''room-1'' ''B'' 3500 b_left) = Inr m)
   \<and> db (snd (leaveRoom ''room-1'' ''B'' 3500 b_left)) = db b_left
   \<and> find_member (db b_left) ''room-1'' ''D'' = None
   \<and> leaveRoom ''room-1'' ''D'' 3500 b_left = (Inl NotMember, b_left)
   \<and> (\<exists>m1. fst (leaveRoom ''room-1'' ''A'' 3000 b_joined) = Inr m1)
   \<and> db (snd (leaveRoom ''room-1'' ''A'' 3500 a_left)) = db a_left
   \<and> map role (room_members (db (snd (leaveRoom ''room-1'' ''A'' 3500 a_left))))
       = [''owner'', ''owner'']"
proof -
  obtain m where m: "find_member (db b_left) ''room-1'' ''B'' = Some m" "status m = ''left''"
    by (simp add: eval_defs)
  have none: "find_member (db b_left) ''room-1'' ''D'' = None"
    by (simp add: eval_defs)
  obtain m1 where m1: "fst (leaveRoom ''room-1'' ''A'' 3000 b_joined) = Inr m1"
    by (simp add: eval_defs)
  then have first: "leaveRoom ''room-1'' ''A'' 3000 b_joined = (Inr m1, a_left)"
    by (simp add: prod_eq_iff a_left_def)
  have roles: "map role (room_members (db a_left)) = [''owner'', ''owner'']"
    by (simp add: eval_defs)
  note t1 = leaveRoom_idempotent [of b_left "''room-1''" "''B''" m 3500]
  note t2 = leaveRoom_idempotent [of b_left "''room-1''" "''D''" _ 3500]
  note t3 = leaveRoom_idempotent [of b_joined "''room-1''" "''A''" _ 3000 m1 a_left 3500]
  have a: "fst (leaveRoom ''room-1'' ''B'' 3500 b_left) = Inr m"
    and b: "db (snd (leaveRoom ''room-1'' ''B'' 3500 b_left)) = db b_left"
    using t1 m by simp_all
  have c: "leaveRoom ''room-1'' ''D'' 3500 b_left = (Inl NotMember, b_left)"
    using t2 none by simp
  have d: "db (snd (leaveRoom ''room-1'' ''A'' 3500 a_left)) = db a_left"
    using t3 first by simp
  show ?thesis
    using m a b none c m1 d roles by auto
qed

section \<open>The cached member count\<close>

lemma leaveRoom_tx_status_left:
  "leaveRoom_tx d rid uid now = Inr (m, d') \<Longrightarrow> status m = ''left''"
  by (auto simp: leaveRoom_tx_def Let_def split: option.splits if_splits sum.splits)

lemma joinRoom_success_state:
  assumes "joinRoom data now lockValue uuid s = (Inr res, s')"
      and "resolveRoomId (roomCode data) now s = Inr rid"
  shows "\<exists>d'. joinRoom_tx (db s) rid (userId data) (joinNickname data) now uuid = Inr (res, d')
           \<and> db s' = d'
           \<and> room_keys (kv s') = room_keys (kv (updateRoomMemberCount rid 1 now s))"
  using assms
  by (auto simp: joinRoom_alone joinRoom_locked_def kv_set_px_nx_def releaseJoinLock_def
        updateRoomMemberCount_def kv_get_def
      split: option.splits sum.splits prod.splits if_splits bool.splits)

text \<open>
  Claim C10. Without a live cached entry for the room, the member-count update returns
  the state unchanged. With a cached entry, the entry read back afterwards is the old
  one with its count replaced by the maximum of 0 and the old count (0 when the entry
  has none) plus the delta, which is not negative. A successful joinRoom leaves the
  cached entries that this update with delta 1 leaves, and a successful leaveRoom, also
  one for a member that had already left, those that the update with delta -1 leaves.
\<close>

theorem updateRoomMemberCount_never_negative:
  "(kv_get now (room_keys (kv s)) rid = None \<longrightarrow> updateRoomMemberCount rid delta now s = s)
   \<and> (kv_get now (room_keys (kv s)) rid = Some cached \<longrightarrow>
        (\<exists>c. c = max 0 ((case memberCount cached of None \<Rightarrow> 0 | Some n \<Rightarrow> n) + delta)
             \<and> 0 \<le> c
             \<and> kv_get now (room_keys (kv (updateRoomMemberCount rid delta now s))) rid
                 = Some (cached\<lparr>memberCount := Some c\<rparr>)))
   \<and> (joinRoom data now lockValue uuid s = (Inr res, s')
        \<and> resolveRoomId (roomCode data) now s = Inr rid \<longrightarrow>
        room_keys (kv s') = room_keys (kv (updateRoomMemberCount rid 1 now s)))
   \<and> (leaveRoom rid uid now s = (Inr m, s'') \<longrightarrow>
        room_keys (kv s'') = room_keys (kv (updateRoomMemberCount rid (- 1) now s)))"
proof -
  have absent: "updateRoomMemberCount rid delta now s = s"
    if "kv_get now (room_keys (kv s)) rid = None"
    using that by (simp add: updateRoomMemberCount_def)
  have present: "kv_get now (room_keys (kv (updateRoomMemberCount rid delta now s))) rid
      = Some (cached\<lparr>memberCount :=
                Some (max 0 ((case memberCount cached of None \<Rightarrow> 0 | Some n \<Rightarrow> n) + delta))\<rparr>)"
    if "kv_get now (room_keys (kv s)) rid = Some cached"
    using that by (simp add: updateRoomMemberCount_def kv_get_def kv_setEx_def live_def)
  have join: "room_keys (kv s') = room_keys (kv (updateRoomMemberCount rid 1 now s))"
    if "joinRoom data now lockValue uuid s = (Inr res, s')"
       "resolveRoomId (roomCode data) now s = Inr rid"
    using joinRoom_success_state [OF that] by blast
  have leave: "room_keys (kv s'') = room_keys (kv (updateRoomMemberCount rid (- 1) now s))"
    if "leaveRoom rid uid now s = (Inr m, s'')"
  proof -
    from that obtain d' where tx: "leaveRoom_tx (db s) rid uid now = Inr (m, d')"
      by (auto simp: leaveRoom_def Let_def split: sum.splits if_splits)
    from leaveRoom_tx_status_left [OF tx] tx that show ?thesis
      by (auto simp: leaveRoom_def Let_def updateRoomMemberCount_def split: option.splits)
  qed
  show ?thesis
    using absent present join leave by simp
qed

text \<open>The theorem at work: the start state has no cached entry; after A left its own
  room the cached count is 0, and A's second leave, for which the update runs again with
  delta -1, leaves it at 0; B's join raises the count of the created room from 1 to 2.\<close>

theorem updateRoomMemberCount_never_negative_witness:
  "kv_get 1000 (room_keys (kv start)) ''room-1'' = None
   \<and> updateRoomMemberCount ''room-1'' (- 1) 1000 start = start
   \<and> map_option memberCount (kv_get 2500 (room_keys (kv closed_room)) ''room-1'') = Some (Some 0)
   \<and> map_option memberCount
        (kv_get 2500 (room_keys (kv (updateRoomMemberCount ''room-1'' (- 1) 2500 closed_room)))
           ''room-1'') = Some (Some 0)
   \<and> (\<exists>m. fst (leaveRoom ''room-1'' ''A'' 2500 closed_room) = Inr m)
   \<and> room_keys (kv (snd (leaveRoom ''room-1'' ''A'' 2500 closed_room)))
       = room_keys (kv (updateRoomMemberCount ''room-1'' (- 1) 2500 closed_room))
   \<and> (\<exists>res. fst (joinRoom (join_as ''B'') 2000 ''token-1'' ''member-2'' created) = Inr res)
   \<and> room_keys (kv b_joined) = room_keys (kv (updateRoomMemberCount ''room-1'' 1 2000 created))
   \<and> map_option memberCount (kv_get 2000 (room_keys (kv b_joined)) ''room-1'') = Some (Some 2)"
proof -
  have n: "kv_get 1000 (room_keys (kv start)) ''room-1'' = None"
    by (simp add: eval_defs)
  obtain c0 where c0: "kv_get 2500 (room_keys (kv closed_room)) ''room-1'' = Some c0"
    "memberCount c0 = Some 0"
    by (simp add: eval_defs)
  obtain m where m: "fst (leaveRoom ''room-1'' ''A'' 2500 closed_room) = Inr m"
    by (simp add: eval_defs)
  obtain res where res: "fst (joinRoom (join_as ''B'') 2000 ''token-1'' ''member-2'' created) = Inr res"
    by (simp add: eval_defs)
  have rs: "resolveRoomId (roomCode (join_as ''B'')) 2000 created = Inr ''room-1''"
    by (simp add: eval_defs)
  have two: "map_option memberCount (kv_get 2000 (room_keys (kv b_joined)) ''room-1'') = Some (Some 2)"
    by (simp add: eval_defs)
  have lv: "leaveRoom ''room-1'' ''A'' 2500 closed_room
              = (Inr m, snd (leaveRoom ''room-1'' ''A'' 2500 closed_room))"
    using m by (simp add: prod_eq_iff)
  have jn: "joinRoom (join_as ''B'') 2000 ''token-1'' ''member-2'' created = (Inr res, b_joined)"
    using res by (simp add: prod_eq_iff b_joined_def)
  note t1 = updateRoomMemberCount_never_negative
              [of 1000 start "''room-1''" "- 1"]
  note t2 = updateRoomMemberCount_never_negative
              [of 2500 closed_room "''room-1''" "- 1" c0 _ _ _ _ _ "''A''" m
                  "snd (leaveRoom ''room-1'' ''A'' 2500 closed_room)"]
  note t3 = updateRoomMemberCount_never_negative
              [of 2000 created "''room-1''" _ _ "join_as ''B''" "''token-1''" "''member-2''"
                  res b_joined]
  have a: "updateRoomMemberCount ''room-1'' (- 1) 1000 start = start"
    using t1 n by simp
  have b: "map_option memberCount
        (kv_get 2500 (room_keys (kv (updateRoomMemberCount ''room-1'' (- 1) 2500 closed_room)))
           ''room-1'') = Some (Some 0)"
    using t2 c0 by simp
  have c: "room_keys (kv (snd (leaveRoom ''room-1'' ''A'' 2500 closed_room)))
       = room_keys (kv (updateRoomMemberCount ''room-1'' (- 1) 2500 closed_room))"
    using t2 lv by blast
  have d: "room_keys (kv b_joined) = room_keys (kv (updateRoomMemberCount ''room-1'' 1 2000 created))"
    using t3 jn rs by blast
  show ?thesis
    using n a c0 b m c res d two by auto
qed

section \<open>The checks of joinRoom\<close>

lemma joinRoom_acquired:
  assumes "resolveRoomId (roomCode data) now s = Inr rid"
      and "kv_get now (join_lock_keys (kv s)) rid = None"
  shows "fst (joinRoom data now lockValue uuid s)
           = map_sum id fst (joinRoom_tx (db s) rid (userId data) (joinNickname data) now uuid)"
    and "db (snd (joinRoom data now lockValue uuid s))
           = (case joinRoom_tx (db s) rid (userId data) (joinNickname data) now uuid of
                Inl e \<Rightarrow> db s | Inr (res, d') \<Rightarrow> d')"
  using assms
  by (auto simp: joinRoom_alone joinRoom_locked_def kv_set_px_nx_def releaseJoinLock_def
      split: sum.splits prod.splits)

text \<open>
  Claim C6, amended. With the room id resolved, the lock taken and the room row found,
  the transaction of joinRoom checks the room in this order: it fails with "not active"
  when the status is not active; otherwise with "expired" when the expiry is in the
  past; otherwise with "full" when the active members are at least maxMembers. In each
  of these failures the durable store is unchanged.
\<close>

theorem joinRoom_checks_in_order:
  assumes "resolveRoomId (roomCode data) now s = Inr rid"
      and "kv_get now (join_lock_keys (kv s)) rid = None"
      and "find_room (db s) rid = Some r"
  shows "(room_status r \<noteq> ''active'' \<longrightarrow>
            fst (joinRoom data now lockValue uuid s) = Inl RoomNotActive)
       \<and> (room_status r = ''active'' \<and> (\<exists>t. expires_at r = Some t \<and> t < now) \<longrightarrow>
            fst (joinRoom data now lockValue uuid s) = Inl RoomExpired)
       \<and> (room_status r = ''active'' \<and> \<not> (\<exists>t. expires_at r = Some t \<and> t < now)
            \<and> max_members r \<le> int (length (active_members (db s) rid)) \<longrightarrow>
            fst (joinRoom data now lockValue uuid s) = Inl RoomFull)
       \<and> (room_status r \<noteq> ''active'' \<or> (\<exists>t. expires_at r = Some t \<and> t < now)
            \<or> max_members r \<le> int (length (active_members (db s) rid)) \<longrightarrow>
            db (snd (joinRoom data now lockValue uuid s)) = db s)"
proof -
  let ?tx = "joinRoom_tx (db s) rid (userId data) (joinNickname data) now uuid"
  have inactive: "?tx = Inl RoomNotActive" if "room_status r \<noteq> ''active''"
    using that assms(3) by (simp add: joinRoom_tx_def)
  have expired: "?tx = Inl RoomExpired"
    if "room_status r = ''active''" "\<exists>t. expires_at r = Some t \<and> t < now"
    using that assms(3) by (auto simp: joinRoom_tx_def)
  have full: "?tx = Inl RoomFull"
    if "room_status r = ''active''" "\<not> (\<exists>t. expires_at r = Some t \<and> t < now)"
       "max_members r \<le> int (length (active_members (db s) rid))"
    using that assms(3) by (auto simp: joinRoom_tx_def Let_def split: option.splits)
  have any: "\<exists>e. ?tx = Inl e"
    if "room_status r \<noteq> ''active'' \<or> (\<exists>t. expires_at r = Some t \<and> t < now)
          \<or> max_members r \<le> int (length (active_members (db s) rid))"
    using that inactive expired full by blast
  note acq = joinRoom_acquired [OF assms(1,2), of lockValue uuid]
  show ?thesis
    using inactive expired full any by (auto simp: acq)
qed

text \<open>The theorem at work: A cannot join the room that was closed when A left it; C
  cannot join, at 3000, the full room for two, nor, at 3601001, the same room once it has
  expired.\<close>

theorem joinRoom_checks_in_order_witness:
  "map room_status (rooms (db closed_room)) = [''closed'']
   \<and> fst (joinRoom (join_as ''A'') 3000 ''token-1'' ''member-2'' closed_room) = Inl RoomNotActive
   \<and> db (snd (joinRoom (join_as ''A'') 3000 ''token-1'' ''member-2'' closed_room)) = db closed_room
   \<and> map (\<lambda>r. (room_status r, expires_at r, max_members r)) (rooms (db small_full))
       = [(''active'', Some 3601000, 2)]
   \<and> length (active_members (db small_full) ''room-1'') = 2
   \<and> fst (joinRoom (join_as ''C'') 3000 ''token-2'' ''member-3'' small_full) = Inl RoomFull
   \<and> db (snd (joinRoom (join_as ''C'') 3000 ''token-2'' ''member-3'' small_full)) = db small_full"
proof -
  obtain r1 where r1: "find_room (db closed_room) ''room-1'' = Some r1"
      "room_status r1 = ''closed''"
    by (simp add: eval_defs)
  have s1: "map room_status (rooms (db closed_room)) = [''closed'']"
    by (simp add: eval_defs)
  have rs1: "resolveRoomId (roomCode (join_as ''A'')) 3000 closed_room = Inr ''room-1''"
    by (simp add: eval_defs)
  have l1: "kv_get 3000 (join_lock_keys (kv closed_room)) ''room-1'' = None"
    by (simp add: eval_defs)
  obtain r2 where r2: "find_room (db small_full) ''room-1'' = Some r2"
      "room_status r2 = ''active''" "expires_at r2 = Some 3601000" "max_members r2 = 2"
    by (simp add: eval_defs)
  have s2: "map (\<lambda>r. (room_status r, expires_at r, max_members r)) (rooms (db small_full))
       = [(''active'', Some 3601000, 2)]"
    by (simp add: eval_defs)
  have n2: "length (active_members (db small_full) ''room-1'') = 2"
    by (simp add: eval_defs)
  have rs2: "resolveRoomId (roomCode (join_as ''C'')) 3000 small_full = Inr ''room-1''"
    by (simp add: eval_defs)
  have l2: "kv_get 3000 (join_lock_keys (kv small_full)) ''room-1'' = None"
    by (simp add: eval_defs)
  from joinRoom_checks_in_order [OF rs1 l1 r1(1), of "''token-1''" "''member-2''"] r1(2)
  have a: "fst (joinRoom (join_as ''A'') 3000 ''token-1'' ''member-2'' closed_room) = Inl RoomNotActive"
    and b: "db (snd (joinRoom (join_as ''A'') 3000 ''token-1'' ''member-2'' closed_room)) = db closed_room"
    by simp_all
  from joinRoom_checks_in_order [OF rs2 l2 r2(1), of "''token-2''" "''member-3''"] r2(2-4) n2
  have c: "fst (joinRoom (join_as ''C'') 3000 ''token-2'' ''member-3'' small_full) = Inl RoomFull"
    and d: "db (snd (joinRoom (join_as ''C'') 3000 ''token-2'' ''member-3'' small_full)) = db small_full"
    by simp_all
  show ?thesis by (intro conjI s1 a b s2 n2 c d)
qed

text \<open>Claim C6 as stated fails where two of the conditions hold together: the room for
  two is full and, at 3601001, past its expiry; joinRoom fails with "expired", not with
  "full".\<close>

theorem joinRoom_full_and_expired:
  "map (\<lambda>r. (room_status r, expires_at r, max_members r)) (rooms (db small_full))
       = [(''active'', Some 3601000, 2)]
   \<and> length (active_members (db small_full) ''room-1'') = 2
   \<and> fst (joinRoom (join_as ''C'') 3601001 ''token-2'' ''member-3'' small_full) = Inl RoomExpired
   \<and> fst (joinRoom (join_as ''C'') 3601001 ''token-2'' ''member-3'' small_full) \<noteq> Inl RoomFull"
  by (simp add: eval_defs)

section \<open>Joining again after leaving\<close>

lemma update_member_row_keeps:
  assumes "\<And>x. key (f x) = key x"
  shows "map key (room_members (update_member_row d i f)) = map key (room_members d)"
  using assms by (simp add: update_member_row_def)

lemma joinRoom_tx_rejoin:
  assumes "find_member d rid uid = Some m" and "status m = ''left''"
      and "joinRoom_tx d rid uid nick now uuid = Inr (res, d')"
  shows "isRejoining res"
    and "roomMember res = m\<lparr>status := ''active'', nickname := or_else nick (nickname m),
                              last_seen := Some now\<rparr>"
    and "d' = update_member_row d (member_ident m)
                (\<lambda>x. x\<lparr>status := ''active'', nickname := or_else nick (nickname m),
                        last_seen := Some now\<rparr>)"
  using assms
  by (auto simp: joinRoom_tx_def Let_def split: option.splits if_splits)

text \<open>
  Claim C4, amended. Let the room code resolve to a room in which the user has a row of
  status left. Whatever joinRoom returns, the rows of the durable store keep their
  number, order, identity, room, user, role, join order and join date, and the rooms are
  unchanged: no second row appears and no join order changes. When joinRoom succeeds, it
  reports isRejoining = true and returns the user's row with status active, the
  nickname replaced by the supplied one if there is one, and last-seen set to the
  current time, and that row is the user's row in the store. It succeeds exactly when
  the lock is free and the room is found, active, not past its expiry and below
  maxMembers; otherwise the user's row stays as it was.
\<close>

theorem joinRoom_reactivates_left_member:
  assumes "resolveRoomId (roomCode data) now s = Inr rid"
      and "find_member (db s) rid (userId data) = Some m"
      and "status m = ''left''"
  shows "map (\<lambda>x. (member_ident x, room_id x, user_id x, role x, join_order x, joined_at x))
           (room_members (db (snd (joinRoom data now lockValue uuid s))))
         = map (\<lambda>x. (member_ident x, room_id x, user_id x, role x, join_order x, joined_at x))
             (room_members (db s))
       \<and> rooms (db (snd (joinRoom data now lockValue uuid s))) = rooms (db s)
       \<and> (\<forall>res. fst (joinRoom data now lockValue uuid s) = Inr res \<longrightarrow>
            isRejoining res
            \<and> roomMember res = m\<lparr>status := ''active'',
                                    nickname := or_else (joinNickname data) (nickname m),
                                    last_seen := Some now\<rparr>
            \<and> find_member (db (snd (joinRoom data now lockValue uuid s))) rid (userId data)
                = Some (roomMember res))
       \<and> ((\<exists>res. fst (joinRoom data now lockValue uuid s) = Inr res) \<longleftrightarrow>
            kv_get now (join_lock_keys (kv s)) rid = None
            \<and> (\<exists>r. find_room (db s) rid = Some r \<and> room_status r = ''active''
                  \<and> \<not> (\<exists>t. expires_at r = Some t \<and> t < now)
                  \<and> int (length (active_members (db s) rid)) < max_members r))
       \<and> ((\<exists>e. fst (joinRoom data now lockValue uuid s) = Inl e) \<longrightarrow>
            db (snd (joinRoom data now lockValue uuid s)) = db s)"
proof (cases "kv_get now (join_lock_keys (kv s)) rid = None")
  case False
  then have "joinRoom data now lockValue uuid s = (Inl RoomBeingModified, s)"
    using assms(1) by (auto simp: joinRoom_alone kv_set_px_nx_def)
  with False show ?thesis by simp
next
  case True
  let ?tx = "joinRoom_tx (db s) rid (userId data) (joinNickname data) now uuid"
  let ?upd = "\<lambda>x. x\<lparr>status := ''active'', nickname := or_else (joinNickname data) (nickname m),
                        last_seen := Some now\<rparr>"
  note acq = joinRoom_acquired [OF assms(1) True, of lockValue uuid]
  have ok_iff: "(\<exists>p. ?tx = Inr p) \<longleftrightarrow>
        (\<exists>r. find_room (db s) rid = Some r \<and> room_status r = ''active''
              \<and> \<not> (\<exists>t. expires_at r = Some t \<and> t < now)
              \<and> int (length (active_members (db s) rid)) < max_members r)"
    using assms(2,3)
    by (auto simp: joinRoom_tx_def Let_def split: option.splits if_splits)
  show ?thesis
  proof (cases ?tx)
    case (Inl e)
    with ok_iff True show ?thesis by (simp add: acq)
  next
    case (Inr p)
    obtain res d' where p: "p = (res, d')" by (cases p)
    note rj = joinRoom_tx_rejoin [OF assms(2,3) Inr [unfolded p]]
    have found: "find_member d' rid (userId data) = Some (?upd m)"
      using assms(2)
      by (simp add: rj(3) find_member_def update_member_row_def find_map_keeping)
    have keys: "map (\<lambda>x. (member_ident x, room_id x, user_id x, role x, join_order x, joined_at x))
                  (room_members d')
                = map (\<lambda>x. (member_ident x, room_id x, user_id x, role x, join_order x, joined_at x))
                    (room_members (db s))"
      unfolding rj(3) by (rule update_member_row_keeps) simp
    have rooms: "rooms d' = rooms (db s)"
      by (simp add: rj(3) update_member_row_def)
    from ok_iff Inr have guards: "\<exists>r. find_room (db s) rid = Some r \<and> room_status r = ''active''
              \<and> \<not> (\<exists>t. expires_at r = Some t \<and> t < now)
              \<and> int (length (active_members (db s) rid)) < max_members r"
      by blast
    show ?thesis
      using True guards found keys rooms rj(1,2) by (simp add: acq Inr p)
  qed
qed

text \<open>The theorem at work: A, who left the room at 3000 while B stayed, joins again at
  4000 and gets its row back, with join order 1; the rows keep their join orders.\<close>

theorem joinRoom_reactivates_left_member_witness:
  "resolveRoomId (roomCode (join_as ''A'')) 4000 a_left = Inr ''room-1''
   \<and> map (\<lambda>x. (user_id x, status x, join_order x)) (room_members (db a_left))
       = [(''A'', ''left'', 1), (''B'', ''active'', 2)]
   \<and> (\<exists>res. fst (joinRoom (join_as ''A'') 4000 ''token-2'' ''member-3'' a_left) = Inr res
          \<and> isRejoining res \<and> join_order (roomMember res) = 1
          \<and> member_ident (roomMember res) = ''member-1'')
   \<and> map (\<lambda>x. (member_ident x, join_order x)) (room_members (db a_rejoined))
       = [(''member-1'', 1), (''member-2'', 2)]
   \<and> map (\<lambda>x. (user_id x, status x)) (room_members (db a_rejoined))
       = [(''A'', ''active''), (''B'', ''active'')]"
proof -
  have rs: "resolveRoomId (roomCode (join_as ''A'')) 4000 a_left = Inr ''room-1''"
    by (simp add: eval_defs)
  obtain m where m: "find_member (db a_left) ''room-1'' (userId (join_as ''A'')) = Some m"
      "status m = ''left''" "join_order m = 1" "member_ident m = ''member-1''"
    by (simp add: eval_defs)
  have rows: "map (\<lambda>x. (user_id x, status x, join_order x)) (room_members (db a_left))
       = [(''A'', ''left'', 1), (''B'', ''active'', 2)]"
    by (simp add: eval_defs)
  have ids: "map (\<lambda>x. (member_ident x, join_order x)) (room_members (db a_left))
       = [(''member-1'', 1), (''member-2'', 2)]"
    by (simp add: eval_defs)
  have lock: "kv_get 4000 (join_lock_keys (kv a_left)) ''room-1'' = None"
    by (simp add: eval_defs)
  have guards: "\<exists>r. find_room (db a_left) ''room-1'' = Some r \<and> room_status r = ''active''
                  \<and> \<not> (\<exists>t. expires_at r = Some t \<and> t < 4000)
                  \<and> int (length (active_members (db a_left) ''room-1'')) < max_members r"
    by (simp add: eval_defs)
  have after: "map (\<lambda>x. (user_id x, status x)) (room_members (db a_rejoined))
       = [(''A'', ''active''), (''B'', ''active'')]"
    by (simp add: eval_defs)
  note t = joinRoom_reactivates_left_member [OF rs m(1,2), of "''token-2''" "''member-3''"]
  from t lock guards
  obtain res where res: "fst (joinRoom (join_as ''A'') 4000 ''token-2'' ''member-3'' a_left) = Inr res"
    by blast
  with t m(3,4) have r1: "isRejoining res" "join_order (roomMember res) = 1"
      "member_ident (roomMember res) = ''member-1''"
    by simp_all
  from t have "map (\<lambda>x. (member_ident x, room_id x, user_id x, role x, join_order x, joined_at x))
           (room_members (db a_rejoined))
         = map (\<lambda>x. (member_ident x, room_id x, user_id x, role x, join_order x, joined_at x))
             (room_members (db a_left))"
    unfolding a_rejoined_def by (rule conjunct1)
  then have "map ((\<lambda>p. (fst p, fst (snd (snd (snd (snd p))))))
                \<circ> (\<lambda>x. (member_ident x, room_id x, user_id x, role x, join_order x, joined_at x)))
              (room_members (db a_rejoined))
           = map ((\<lambda>p. (fst p, fst (snd (snd (snd (snd p))))))
                \<circ> (\<lambda>x. (member_ident x, room_id x, user_id x, role x, join_order x, joined_at x)))
              (room_members (db a_left))"
    by (simp only: map_map [symmetric])
  then have kept: "map (\<lambda>x. (member_ident x, join_order x)) (room_members (db a_rejoined))
       = [(''member-1'', 1), (''member-2'', 2)]"
    using ids by (simp add: comp_def)
  show ?thesis
    using rs rows res r1 kept after by auto
qed

text \<open>Claim C4 as stated fails when a check of joinRoom refuses the join: A's row in the
  room that was closed when A left has status left, and A's joinRoom fails with "not
  active" and leaves the row left.\<close>

theorem joinRoom_left_member_refused:
  "map (\<lambda>x. (user_id x, status x)) (room_members (db closed_room)) = [(''A'', ''left'')]
   \<and> fst (joinRoom (join_as ''A'') 3000 ''token-1'' ''member-2'' closed_room) = Inl RoomNotActive
   \<and> map (\<lambda>x. (user_id x, status x))
        (room_members (db (snd (joinRoom (join_as ''A'') 3000 ''token-1'' ''member-2'' closed_room))))
       = [(''A'', ''left'')]"
  by (simp add: eval_defs)

section \<open>The cached path of getRoomDetails\<close>

text \<open>
  Claim C8. With a live cached entry for the room, getRoomDetails returns that entry, or
  denies access when a user id is supplied that is not in the cached membership set;
  the state is unchanged, and the answer is the same whatever the durable store holds,
  so the room's status and expiry are not consulted. There is a state, reached by
  creating a room for two hours at 0 and reading its details at 4000000, in which, at
  7300000, the room of the durable store is past its expiry while the cached entry is
  live, and getRoomDetails returns the cached entry to the member A.
\<close>

theorem getRoomDetails_cached_path:
  assumes "kv_get now (room_keys (kv s)) rid = Some cached"
  shows "getRoomDetails rid uid now s
           = (if truthy uid
                 \<and> \<not> kv_sIsMember now (room_members_keys (kv s)) rid (or_else uid [])
              then Inl AccessDenied else Inr cached, s)
       \<and> (\<forall>d. fst (getRoomDetails rid uid now (s\<lparr>db := d\<rparr>))
                = fst (getRoomDetails rid uid now s))
       \<and> (\<exists>s0 t u r e c.
             find_room (db s0) ''room-1'' = Some r \<and> expires_at r = Some e \<and> e < t
             \<and> kv_get t (room_keys (kv s0)) ''room-1'' = Some c
             \<and> getRoomDetails ''room-1'' (Some u) t s0 = (Inr c, s0))"
proof -
  have hit: "getRoomDetails k u t x
           = (if truthy u \<and> \<not> kv_sIsMember t (room_members_keys (kv x)) k (or_else u [])
              then Inl AccessDenied else Inr c, x)"
    if "kv_get t (room_keys (kv x)) k = Some c" for k u t x c
    using that by (simp add: getRoomDetails_def)
  have same: "fst (getRoomDetails rid uid now (s\<lparr>db := d\<rparr>))
                = fst (getRoomDetails rid uid now s)" for d
    using assms by (simp add: getRoomDetails_def)
  obtain r where r: "find_room (db details_read) ''room-1'' = Some r"
      "expires_at r = Some 7200000"
    by (simp add: eval_defs)
  obtain c where c: "kv_get 7300000 (room_keys (kv details_read)) ''room-1'' = Some c"
    by (simp add: eval_defs)
  have mem: "kv_sIsMember 7300000 (room_members_keys (kv details_read)) ''room-1'' ''A''"
    by (simp add: eval_defs)
  have "getRoomDetails ''room-1'' (Some ''A'') 7300000 details_read = (Inr c, details_read)"
    using hit [OF c, of "Some ''A''"] mem by (simp add: or_else_def truthy_def)
  with r c have stale: "\<exists>s0 t u r e c.
             find_room (db s0) ''room-1'' = Some r \<and> expires_at r = Some e \<and> e < t
             \<and> kv_get t (room_keys (kv s0)) ''room-1'' = Some c
             \<and> getRoomDetails ''room-1'' (Some u) t s0 = (Inr c, s0)"
    by (intro exI [of _ details_read] exI [of _ 7300000] exI [of _ "''A''"] exI [of _ r]
          exI [of _ 7200000] exI [of _ c]) simp
  show ?thesis
    using hit [OF assms] same stale by blast
qed

text \<open>The theorem at work, in the state just described: the member A is served the
  cached entry of the expired room, and B, who is not in the membership set, is denied.\<close>

theorem getRoomDetails_cached_path_witness:
  "(\<exists>c. kv_get 7300000 (room_keys (kv details_read)) ''room-1'' = Some c
        \<and> getRoomDetails ''room-1'' (Some ''A'') 7300000 details_read = (Inr c, details_read))
   \<and> map expires_at (rooms (db details_read)) = [Some 7200000]
   \<and> getRoomDetails ''room-1'' (Some ''B'') 7300000 details_read = (Inl AccessDenied, details_read)"
proof -
  obtain c where c: "kv_get 7300000 (room_keys (kv details_read)) ''room-1'' = Some c"
    by (simp add: eval_defs)
  have memA: "kv_sIsMember 7300000 (room_members_keys (kv details_read)) ''room-1'' ''A''"
    by (simp add: eval_defs)
  have memB: "\<not> kv_sIsMember 7300000 (room_members_keys (kv details_read)) ''room-1'' ''B''"
    by (simp add: eval_defs)
  have e: "map expires_at (rooms (db details_read)) = [Some 7200000]"
    by (simp add: eval_defs)
  from getRoomDetails_cached_path [OF c, of "Some ''A''"] memA
  have a: "getRoomDetails ''room-1'' (Some ''A'') 7300000 details_read = (Inr c, details_read)"
    by (simp add: or_else_def truthy_def)
  from getRoomDetails_cached_path [OF c, of "Some ''B''"] memB
  have b: "getRoomDetails ''room-1'' (Some ''B'') 7300000 details_read
             = (Inl AccessDenied, details_read)"
    by (simp add: or_else_def truthy_def)
  show ?thesis using c a e b by blast
qed

section \<open>The chat log\<close>

lemma send_message_db [simp]: "db (snd (send_message sock rid text now uuid s)) = db s"
  by (simp add: send_message_def Let_def split: option.splits)

lemma send_message_pushes:
  assumes "find_active_member (db s) rid (socket_userId sock) \<noteq> None"
      and "now \<le> now'" and "now' < now + CHAT_HISTORY_TTL_SECONDS * 1000"
  shows "kv_lRange_all now' (chat_keys (kv (snd (send_message sock rid text now uuid s)))) rid
           = message_of rid (sock, text, now, uuid) # kv_lRange_all now (chat_keys (kv s)) rid"
  using assms
  by (auto simp: send_message_def message_of_def kv_lRange_all_def kv_expire_def kv_lPush_def
        kv_get_def live_def Let_def split: option.splits)

lemma event_simps [simp]:
  "event_time (sock, body, now, uuid) = now"
  "event_socket (sock, body, now, uuid) = sock"
  by (simp_all add: event_time_def event_socket_def)

lemma timestamp_message_of [simp]: "timestamp (message_of rid e) = event_time e"
  by (cases e) (simp add: message_of_def)

lemma send_messages_db [simp]: "db (send_messages sends rid s) = db s"
  by (induction sends rid s rule: send_messages.induct) simp_all

lemma send_messages_log:
  assumes "\<forall>e \<in> set (ev # rest). find_active_member (db s) rid (socket_userId (event_socket e)) \<noteq> None"
      and "paced (map event_time (ev # rest)) t'"
  shows "kv_lRange_all t' (chat_keys (kv (send_messages (ev # rest) rid s))) rid
           = rev (map (message_of rid) (ev # rest))
               @ kv_lRange_all (event_time ev) (chat_keys (kv s)) rid"
  using assms
proof (induction rest arbitrary: ev s)
  case Nil
  obtain sock body now uuid where ev: "ev = (sock, body, now, uuid)" by (cases ev)
  from Nil show ?case
    by (simp add: ev send_message_pushes)
next
  case (Cons ev2 rest)
  obtain sock body now uuid where ev: "ev = (sock, body, now, uuid)" by (cases ev)
  let ?s1 = "snd (send_message sock rid body now uuid s)"
  from Cons.prems(2) have t: "now \<le> event_time ev2"
      "event_time ev2 < now + CHAT_HISTORY_TTL_SECONDS * 1000"
      "paced (map event_time (ev2 # rest)) t'"
    by (simp_all add: ev)
  from Cons.prems(1)
  have act: "find_active_member (db s) rid (socket_userId sock) \<noteq> None"
    and rest: "\<forall>e \<in> set (ev2 # rest).
                 find_active_member (db ?s1) rid (socket_userId (event_socket e)) \<noteq> None"
    by (simp_all add: ev)
  have "kv_lRange_all t' (chat_keys (kv (send_messages (ev2 # rest) rid ?s1))) rid
          = rev (map (message_of rid) (ev2 # rest))
              @ kv_lRange_all (event_time ev2) (chat_keys (kv ?s1)) rid"
    by (rule Cons.IH [OF rest t(3)])
  also have "kv_lRange_all (event_time ev2) (chat_keys (kv ?s1)) rid
          = message_of rid ev # kv_lRange_all now (chat_keys (kv s)) rid"
    unfolding ev by (rule send_message_pushes [OF act t(1,2)])
  finally show ?case
    by (simp add: ev)
qed

lemma paced_sorted: "paced ts t' \<Longrightarrow> sorted ts"
proof (induction ts t' rule: paced.induct)
  case (3 t u ts t')
  then have "t \<le> u" "sorted (u # ts)" by simp_all
  then show ?case by (auto intro: order_trans)
qed simp_all

text \<open>
  Claim C9. Let active members of a room send the messages of a non-empty list of events,
  one after the other, each within the retention window of the one before, and let the
  history be requested within the retention window of the last. The stored list then
  holds the messages newest first, in front of what was retained before the first
  event. A requester who is an active member receives what was retained before,
  followed by the messages in the order in which they were sent, so that the last
  element is the message appended last; when nothing was retained before, the history
  is exactly the messages in sending order, and their timestamps are in ascending order.
\<close>

theorem chat_history_chronological:
  assumes "\<forall>e \<in> set (ev # rest).
             find_active_member (db s) rid (socket_userId (event_socket e)) \<noteq> None"
      and "paced (map event_time (ev # rest)) t'"
      and "find_active_member (db s) rid (socket_userId requester) \<noteq> None"
  shows "kv_lRange_all t' (chat_keys (kv (send_messages (ev # rest) rid s))) rid
           = rev (map (message_of rid) (ev # rest))
               @ kv_lRange_all (event_time ev) (chat_keys (kv s)) rid
       \<and> request_chat_history requester rid t' (send_messages (ev # rest) rid s)
           = EmitChatHistory
               (rev (kv_lRange_all (event_time ev) (chat_keys (kv s)) rid)
                  @ map (message_of rid) (ev # rest))
       \<and> (kv_lRange_all (event_time ev) (chat_keys (kv s)) rid = [] \<longrightarrow>
            request_chat_history requester rid t' (send_messages (ev # rest) rid s)
              = EmitChatHistory (map (message_of rid) (ev # rest)))
       \<and> (\<exists>older. request_chat_history requester rid t' (send_messages (ev # rest) rid s)
                     = EmitChatHistory (older @ [message_of rid (last (ev # rest))]))
       \<and> sorted (map timestamp (map (message_of rid) (ev # rest)))"
proof -
  note log = send_messages_log [OF assms(1,2)]
  have hist: "request_chat_history requester rid t' (send_messages (ev # rest) rid s)
           = EmitChatHistory
               (rev (kv_lRange_all (event_time ev) (chat_keys (kv s)) rid)
                  @ map (message_of rid) (ev # rest))"
    using assms(3) by (auto simp: request_chat_history_def log)
  have "map (message_of rid) (ev # rest)
          = map (message_of rid) (butlast (ev # rest)) @ [message_of rid (last (ev # rest))]"
    by (metis append_butlast_last_id list.distinct(1) list.simps(8,9) map_append)
  then have lastm: "\<exists>older. request_chat_history requester rid t' (send_messages (ev # rest) rid s)
                     = EmitChatHistory (older @ [message_of rid (last (ev # rest))])"
    unfolding hist by (metis append.assoc)
  have "timestamp \<circ> message_of rid = event_time"
    by (rule ext) simp
  then have "map timestamp (map (message_of rid) (ev # rest)) = map event_time (ev # rest)"
    by (simp only: map_map)
  with paced_sorted [OF assms(2)]
  have srt: "sorted (map timestamp (map (message_of rid) (ev # rest)))"
    by (simp only:)
  show ?thesis
    using log hist lastm srt by simp
qed

text \<open>The theorem at work: in the room where A and B are active and nothing is
  retained, A sends "hello" at 5000 and B sends " hi " at 6000; the list holds B's message
  first, and the history that A requests at 6000 is A's message followed by B's.\<close>

theorem chat_history_chronological_witness:
  "kv_lRange_all 5000 (chat_keys (kv b_joined)) ''room-1'' = []
   \<and> paced (map event_time [hello, hi]) 6000
   \<and> kv_lRange_all 6000 (chat_keys (kv (send_messages [hello, hi] ''room-1'' b_joined))) ''room-1''
       = [message_of ''room-1'' hi, message_of ''room-1'' hello]
   \<and> request_chat_history (socket_of ''A'' ''alice'') ''room-1'' 6000
        (send_messages [hello, hi] ''room-1'' b_joined)
       = EmitChatHistory [message_of ''room-1'' hello, message_of ''room-1'' hi]
   \<and> map content [message_of ''room-1'' hello, message_of ''room-1'' hi] = [''hello'', ''hi'']"
proof -
  have empty: "kv_lRange_all 5000 (chat_keys (kv b_joined)) ''room-1'' = []"
    by (simp add: eval_defs)
  have pace: "paced (map event_time [hello, hi]) 6000"
    by (simp add: hello_def hi_def CHAT_HISTORY_TTL_SECONDS_def)
  have senders: "\<forall>e \<in> set [hello, hi].
      find_active_member (db b_joined) ''room-1'' (socket_userId (event_socket e)) \<noteq> None"
    by (simp add: eval_defs)
  have req: "find_active_member (db b_joined) ''room-1'' (socket_userId (socket_of ''A'' ''alice''))
               \<noteq> None"
    by (simp add: eval_defs)
  have t0: "event_time hello = 5000"
    by (simp add: hello_def)
  have texts: "map content [message_of ''room-1'' hello, message_of ''room-1'' hi]
                 = [''hello'', ''hi'']"
    by (simp add: hello_def hi_def message_of_def trim_def is_space_def)
  note t = chat_history_chronological [OF senders pace req]
  have a: "kv_lRange_all 6000 (chat_keys (kv (send_messages [hello, hi] ''room-1'' b_joined)))
             ''room-1'' = [message_of ''room-1'' hi, message_of ''room-1'' hello]"
    using t empty by (simp add: t0)
  have b: "request_chat_history (socket_of ''A'' ''alice'') ''room-1'' 6000
        (send_messages [hello, hi] ''room-1'' b_joined)
       = EmitChatHistory [message_of ''room-1'' hello, message_of ''room-1'' hi]"
    using t empty by (simp add: t0)
  show ?thesis by (intro conjI empty pace a b texts)
qed

section \<open>Join orders and owners along runs\<close>

text \<open>
  Claim C1. Every operation of the two runs succeeds. In the first, A creates the room,
  B joins, B leaves, C joins: C is given join order 2, the join order stored in B's left
  row. In the second, B and C join, B leaves, D joins: D is given join order 3, the join
  order of the active member C. The join orders of the room's rows are not pairwise
  distinct.
\<close>

theorem joinRoom_repeats_join_order:
  "\<not> isl (fst (createRoom (trip ''A'' 8 24) (\<lambda>_. ''ABC123'') 1000 ''room-1'' ''member-1'' start))
   \<and> \<not> isl (fst (joinRoom (join_as ''B'') 2000 ''token-1'' ''member-2'' created))
   \<and> \<not> isl (fst (leaveRoom ''room-1'' ''B'' 3000 b_joined))
   \<and> \<not> isl (fst (joinRoom (join_as ''C'') 4000 ''token-2'' ''member-3'' b_left))
   \<and> map (\<lambda>m. (room_id m, user_id m, status m, join_order m)) (room_members (db c_joined))
       = [(''room-1'', ''A'', ''active'', 1), (''room-1'', ''B'', ''left'', 2),
          (''room-1'', ''C'', ''active'', 2)]
   \<and> \<not> distinct (map join_order (room_members (db c_joined)))
   \<and> \<not> isl (fst (joinRoom (join_as ''C'') 2500 ''token-2'' ''member-3'' b_joined))
   \<and> \<not> isl (fst (leaveRoom ''room-1'' ''B'' 3000 c_joined_too))
   \<and> \<not> isl (fst (joinRoom (join_as ''D'') 4000 ''token-3'' ''member-4'' b_left_of_three))
   \<and> map (\<lambda>m. (room_id m, user_id m, status m, join_order m)) (room_members (db d_joined))
       = [(''room-1'', ''A'', ''active'', 1), (''room-1'', ''B'', ''left'', 2),
          (''room-1'', ''C'', ''active'', 3), (''room-1'', ''D'', ''active'', 3)]
   \<and> \<not> distinct (map join_order (active_members (db d_joined) ''room-1''))"
  by (simp add: eval_defs)

lemma first_by_join_order_None [simp]: "first_by_join_order ms = None \<longleftrightarrow> ms = []"
proof -
  have "sort_key join_order ms = [] \<longleftrightarrow> ms = []"
    by (metis length_0_conv length_sort)
  then show ?thesis
    by (cases "sort_key join_order ms") (auto simp: first_by_join_order_def)
qed

lemma first_by_join_order_least:
  assumes "first_by_join_order ms = Some m"
  shows "m \<in> set ms" and "\<forall>x \<in> set ms. join_order m \<le> join_order x"
proof -
  from assms obtain rest where srt: "sort_key join_order ms = m # rest"
    by (auto simp: first_by_join_order_def split: list.splits)
  have "set (m # rest) = set ms"
    unfolding srt [symmetric] by simp
  moreover have "sorted (map join_order (m # rest))"
    unfolding srt [symmetric] by (rule sorted_sort_key)
  ultimately show "m \<in> set ms" and "\<forall>x \<in> set ms. join_order m \<le> join_order x"
    by auto
qed

lemma filter_map_fixed:
  "(\<And>x. x \<in> set xs \<Longrightarrow> P (h x) = P x) \<Longrightarrow> (\<And>x. x \<in> set xs \<Longrightarrow> P x \<Longrightarrow> h x = x)
   \<Longrightarrow> filter P (map h xs) = filter P xs"
  by (induction xs) auto

lemma marking_left_keeps_the_others:
  assumes rm: "find_member d rid uid = Some rm"
      and ids: "distinct (map member_ident (room_members d))"
  shows "filter (\<lambda>x. room_id x = rid \<and> user_id x \<noteq> uid \<and> status x = ''active'')
           (room_members (update_member_where d
               (\<lambda>x. member_ident x = member_ident rm \<and> status x = ''active'')
               (\<lambda>x. x\<lparr>status := ''left'', left_at := Some now\<rparr>)))
         = filter (\<lambda>x. room_id x = rid \<and> user_id x \<noteq> uid \<and> status x = ''active'')
             (room_members d)"
proof -
  from rm have rm_in: "rm \<in> set (room_members d)" and rm_uid: "user_id rm = uid"
    by (auto simp: find_member_def find_Some_iff)
  have same: "x = rm" if "x \<in> set (room_members d)" "member_ident x = member_ident rm" for x
  proof -
    from ids have inj: "inj_on member_ident (set (room_members d))"
      by (simp add: distinct_map)
    show ?thesis by (rule inj_onD [OF inj that(2) that(1) rm_in])
  qed
  have other: "member_ident x \<noteq> member_ident rm"
    if "x \<in> set (room_members d)" "user_id x \<noteq> uid" for x
    using same [OF that(1)] that(2) rm_uid by blast
  have rows: "room_members (update_member_where d Q g)
                = map (\<lambda>m. if Q m then g m else m) (room_members d)" for Q g
    by (simp add: update_member_where_def)
  show ?thesis
    unfolding rows
  proof (rule filter_map_fixed)
    fix x assume "x \<in> set (room_members d)"
    then show "(room_id (if member_ident x = member_ident rm \<and> status x = ''active''
                         then x\<lparr>status := ''left'', left_at := Some now\<rparr> else x) = rid
                \<and> user_id (if member_ident x = member_ident rm \<and> status x = ''active''
                         then x\<lparr>status := ''left'', left_at := Some now\<rparr> else x) \<noteq> uid
                \<and> status (if member_ident x = member_ident rm \<and> status x = ''active''
                         then x\<lparr>status := ''left'', left_at := Some now\<rparr> else x) = ''active'')
             = (room_id x = rid \<and> user_id x \<noteq> uid \<and> status x = ''active'')"
      using other [of x] by auto
  next
    fix x assume "x \<in> set (room_members d)"
      and "room_id x = rid \<and> user_id x \<noteq> uid \<and> status x = ''active''"
    then show "(if member_ident x = member_ident rm \<and> status x = ''active''
                then x\<lparr>status := ''left'', left_at := Some now\<rparr> else x) = x"
      using other [of x] by simp
  qed
qed

text \<open>
  What leaveRoom does for an owner, in a store whose row identifiers are distinct (the
  primary key). Let the remaining members be the active rows of the room that belong
  to other users. If there are none, the room is closed with the current time as
  completion time. Otherwise one of the remaining rows, of least join order among them,
  is given the role owner, and the rooms are unchanged.
\<close>

lemma leaveRoom_tx_owner_succession:
  assumes rm: "find_member d rid uid = Some rm"
      and act: "status rm = ''active''" and own: "role rm = ''owner''"
      and ids: "distinct (map member_ident (room_members d))"
      and tx: "leaveRoom_tx d rid uid now = Inr (m, d')"
  shows "(filter (\<lambda>x. room_id x = rid \<and> user_id x \<noteq> uid \<and> status x = ''active'')
             (room_members d) = [] \<longrightarrow>
            (\<exists>r. find_room d' rid = Some r \<and> room_status r = ''closed''
                  \<and> completed_at r = Some now))
       \<and> (filter (\<lambda>x. room_id x = rid \<and> user_id x \<noteq> uid \<and> status x = ''active'')
             (room_members d) \<noteq> [] \<longrightarrow>
            (\<exists>nm. nm \<in> set (room_members d) \<and> room_id nm = rid \<and> user_id nm \<noteq> uid
                  \<and> status nm = ''active''
                  \<and> (\<forall>x \<in> set (room_members d).
                        room_id x = rid \<and> user_id x \<noteq> uid \<and> status x = ''active''
                        \<longrightarrow> join_order nm \<le> join_order x)
                  \<and> nm\<lparr>role := ''owner''\<rparr> \<in> set (room_members d')
                  \<and> rooms d' = rooms d))"
proof -
  let ?P = "\<lambda>x. room_id x = rid \<and> user_id x \<noteq> uid \<and> status x = ''active''"
  let ?upd = "\<lambda>x. x\<lparr>status := ''left'', left_at := Some now\<rparr>"
  let ?close = "\<lambda>r. r\<lparr>room_status := ''closed'', completed_at := Some now, updated_at := now\<rparr>"
  define d1 where "d1 = update_member_where d
               (\<lambda>x. member_ident x = member_ident rm \<and> status x = ''active'') ?upd"
  have rem: "filter ?P (room_members d1) = filter ?P (room_members d)"
    unfolding d1_def by (rule marking_left_keeps_the_others [OF rm ids])
  have rooms1: "rooms d1 = rooms d"
    by (simp add: d1_def update_member_where_def)
  have nxt: "next_member d1 rid uid = first_by_join_order (filter ?P (room_members d))"
    by (simp only: next_member_def rem)
  have tx_eq: "leaveRoom_tx d rid uid now =
      (case next_member d1 rid uid of
         Some nm \<Rightarrow> Inr (?upd rm, update_member_row d1 (member_ident nm) (\<lambda>x. x\<lparr>role := ''owner''\<rparr>))
       | None \<Rightarrow> (case update_room_row d1 rid ?close of
                    Inl e \<Rightarrow> Inl e | Inr d2 \<Rightarrow> Inr (?upd rm, d2)))"
    using rm act own unfolding d1_def by (simp add: leaveRoom_tx_def Let_def)
  show ?thesis
  proof (cases "filter ?P (room_members d) = []")
    case True
    then have none: "next_member d1 rid uid = None"
      by (simp add: nxt)
    from tx have upd_ok: "update_room_row d1 rid ?close = Inr d'"
      unfolding tx_eq none by (simp split: sum.splits)
    then have found: "find_room d1 rid \<noteq> None"
      and rows: "rooms d' = map (\<lambda>r. if room_ident r = rid then ?close r else r) (rooms d1)"
      by (auto simp: update_room_row_def split: if_splits)
    from found obtain r0 where r0: "find_room d1 rid = Some r0"
      by blast
    then have r0_id: "room_ident r0 = rid"
      by (auto simp: find_room_def find_Some_iff)
    have "find_room d' rid
            = map_option (\<lambda>r. if room_ident r = rid then ?close r else r) (find_room d1 rid)"
      unfolding find_room_def rows by (rule find_map_keeping) simp
    then have "find_room d' rid = Some (?close r0)"
      by (simp add: r0 r0_id)
    then have "\<exists>r. find_room d' rid = Some r \<and> room_status r = ''closed''
                  \<and> completed_at r = Some now"
      by simp
    with True show ?thesis by blast
  next
    case False
    then obtain nm where nm: "first_by_join_order (filter ?P (room_members d)) = Some nm"
      by (cases "first_by_join_order (filter ?P (room_members d))") simp_all
    note least = first_by_join_order_least [OF nm]
    from least(1) have nm_in: "nm \<in> set (room_members d)" and nm_P: "?P nm"
      by simp_all
    from least(2) have nm_least: "\<forall>x \<in> set (room_members d). ?P x \<longrightarrow> join_order nm \<le> join_order x"
      by simp
    from least(1) have "nm \<in> set (filter ?P (room_members d1))"
      by (simp only: rem)
    then have nm_in1: "nm \<in> set (room_members d1)"
      by simp
    from tx have d': "d' = update_member_row d1 (member_ident nm) (\<lambda>x. x\<lparr>role := ''owner''\<rparr>)"
      unfolding tx_eq nxt nm by simp
    have "(\<lambda>x. if member_ident x = member_ident nm then x\<lparr>role := ''owner''\<rparr> else x) nm
            \<in> set (room_members d')"
      unfolding d' update_member_row_def using nm_in1 by (simp del: if_True)
    then have promoted: "nm\<lparr>role := ''owner''\<rparr> \<in> set (room_members d')"
      by simp
    have rooms: "rooms d' = rooms d"
      by (simp add: d' update_member_row_def rooms1)
    from nm_in nm_P nm_least promoted rooms
    have "\<exists>nm. nm \<in> set (room_members d) \<and> room_id nm = rid \<and> user_id nm \<noteq> uid
                  \<and> status nm = ''active''
                  \<and> (\<forall>x \<in> set (room_members d).
                        room_id x = rid \<and> user_id x \<noteq> uid \<and> status x = ''active''
                        \<longrightarrow> join_order nm \<le> join_order x)
                  \<and> nm\<lparr>role := ''owner''\<rparr> \<in> set (room_members d')
                  \<and> rooms d' = rooms d"
      by blast
    with False show ?thesis by blast
  qed
qed

text \<open>
  Claim C2. Every operation of the run succeeds: A creates the room, B joins, A leaves,
  A joins again. When A leaves, B, the remaining active member, becomes owner and the
  room stays active, but A's left row keeps the role owner; when A joins again the row
  is reactivated with that role, and the room has two active members with role owner.
\<close>

theorem former_owner_rejoins_as_owner:
  "\<not> isl (fst (createRoom (trip ''A'' 8 24) (\<lambda>_. ''ABC123'') 1000 ''room-1'' ''member-1'' start))
   \<and> \<not> isl (fst (joinRoom (join_as ''B'') 2000 ''token-1'' ''member-2'' created))
   \<and> map (\<lambda>m. (user_id m, status m, role m)) (room_members (db b_joined))
       = [(''A'', ''active'', ''owner''), (''B'', ''active'', ''member'')]
   \<and> \<not> isl (fst (leaveRoom ''room-1'' ''A'' 3000 b_joined))
   \<and> map (\<lambda>m. (user_id m, status m, role m)) (room_members (db a_left))
       = [(''A'', ''left'', ''owner''), (''B'', ''active'', ''owner'')]
   \<and> \<not> isl (fst (joinRoom (join_as ''A'') 4000 ''token-2'' ''member-3'' a_left))
   \<and> map (\<lambda>m. (user_id m, status m, role m)) (room_members (db a_rejoined))
       = [(''A'', ''active'', ''owner''), (''B'', ''active'', ''owner'')]
   \<and> map room_status (rooms (db a_rejoined)) = [''active'']
   \<and> length (filter (\<lambda>m. role m = ''owner'') (active_members (db a_rejoined) ''room-1'')) = 2"
  by (simp add: eval_defs)

end
